theory Spec2Isabelle
  imports Main "HOL-Library.Word"
begin

unbundle bit_operations_syntax

section \<open>Data model\<close>

text \<open>
  The structures of \<^verbatim>\<open>swupd.h\<close> are not part of the sources at hand; the records below
  carry the fields that \<^verbatim>\<open>bundle.c\<close> reads and writes.  A \<^verbatim>\<open>struct list *\<close> is a HOL
  list, the \<^verbatim>\<open>NULL\<close> list being \<open>[]\<close>.
\<close>

record file_rec =
  filename :: string
  hash :: string
  last_change :: int
  is_dir :: bool
  is_deleted :: bool
  do_not_update :: bool
  is_experimental :: bool
  staging :: "string option"

text \<open>A per-bundle manifest: \<^verbatim>\<open>struct manifest\<close> as loaded for one component.\<close>

record manifest =
  component :: string
  includes_list :: "string list"
  files :: "file_rec list"
  contentsize :: int

text \<open>
  The Manifest of Manifests is a \<^verbatim>\<open>struct manifest\<close> too; it is the only one whose
  \<^verbatim>\<open>manifests\<close> and \<^verbatim>\<open>submanifests\<close> lists are used, so it gets a record of its own.
\<close>

record mom =
  manifests :: "file_rec list"
  submanifests :: "manifest list"
  mom_files :: "file_rec list"

text \<open>\<^verbatim>\<open>struct sub\<close>: one subscription.\<close>

record sub =
  sub_component :: string
  sub_version :: int

section \<open>\<^verbatim>\<open>required_by\<close>\<close>

text \<open>
  \<^verbatim>\<open>printf("%*s", w, "")\<close> prints \<open>w\<close> blanks; a negative width means left
  justification in a field of \<open>-w\<close>, which for the empty string is again blanks.
\<close>

definition pad :: "int \<Rightarrow> string" where
  "pad w = replicate (nat \<bar>w\<bar>) (CHR '' '')"

definition newline :: string where
  "newline = [CHR 0x0A]"

text \<open>The string built by the two \<^verbatim>\<open>string_or_die\<close> calls of \<^verbatim>\<open>required_by\<close>.\<close>

definition bundle_str :: "int \<Rightarrow> string \<Rightarrow> string" where
  "bundle_str recursion cname =
     (let indent = (recursion - 1) * 4 in
      if recursion = 1 then pad (indent + 2) @ ''* '' @ cname @ newline
      else pad indent @ ''|-- '' @ cname @ newline)"

text \<open>
  The inner \<^verbatim>\<open>while (i)\<close> loop over the includes of one submanifest.  \<open>self\<close> is the
  recursive call \<^verbatim>\<open>required_by(reqd_by, bundle->component, mom, recursion)\<close>; it gets the
  list built so far and returns the extended list, or \<open>None\<close> when the recursion did not
  come back.
\<close>

fun required_by_includes ::
  "(string \<Rightarrow> string list \<Rightarrow> string list option) \<Rightarrow> string \<Rightarrow> int \<Rightarrow> manifest \<Rightarrow>
   string list \<Rightarrow> string list \<Rightarrow> string list option" where
  "required_by_includes self bundle_name recursion bundle [] reqd_by = Some reqd_by"
| "required_by_includes self bundle_name recursion bundle (name # i) reqd_by =
     (if name = bundle_name then
        (case self (component bundle) (reqd_by @ [bundle_str recursion (component bundle)]) of
           None \<Rightarrow> None
         | Some reqd_by' \<Rightarrow> required_by_includes self bundle_name recursion bundle i reqd_by')
      else required_by_includes self bundle_name recursion bundle i reqd_by)"

text \<open>The outer \<^verbatim>\<open>while (b)\<close> loop over \<^verbatim>\<open>mom->submanifests\<close>.\<close>

fun required_by_bundles ::
  "(string \<Rightarrow> string list \<Rightarrow> string list option) \<Rightarrow> string \<Rightarrow> int \<Rightarrow> manifest list \<Rightarrow>
   string list \<Rightarrow> string list option" where
  "required_by_bundles self bundle_name recursion [] reqd_by = Some reqd_by"
| "required_by_bundles self bundle_name recursion (bundle # b) reqd_by =
     (case required_by_includes self bundle_name recursion bundle (includes_list bundle) reqd_by of
        None \<Rightarrow> None
      | Some reqd_by' \<Rightarrow> required_by_bundles self bundle_name recursion b reqd_by')"

text \<open>
  \<^verbatim>\<open>required_by\<close> itself.  The C function recurses without a bound: on a cycle of includes
  it never returns.  The first argument bounds the depth of the recursion; \<open>None\<close> says
  that the bound was reached.
\<close>

fun required_by ::
  "nat \<Rightarrow> mom \<Rightarrow> int \<Rightarrow> string \<Rightarrow> string list \<Rightarrow> string list option" where
  "required_by 0 m recursion bundle_name reqd_by = None"
| "required_by (Suc fuel) m recursion bundle_name reqd_by =
     required_by_bundles (required_by fuel m (recursion + 1)) bundle_name (recursion + 1)
       (submanifests m) reqd_by"

text \<open>
  The walk as the specification words it, for comparison: depth first over the
  submanifests; whenever the includes of a submanifest contain \<open>name\<close>, one line for that
  submanifest, then the lines of its own dependants one level deeper.  Entries of depth
  1 start with \<open>''  * ''\<close>, deeper ones with \<open>4 * (d - 1)\<close> blanks and \<open>''|-- ''\<close>.
\<close>

fun seq_opt :: "'a list option list \<Rightarrow> 'a list option" where
  "seq_opt [] = Some []"
| "seq_opt (None # xs) = None"
| "seq_opt (Some ys # xs) = map_option ((@) ys) (seq_opt xs)"

fun dependants_tree :: "nat \<Rightarrow> manifest list \<Rightarrow> nat \<Rightarrow> string \<Rightarrow> string list option" where
  "dependants_tree 0 subs d name = None"
| "dependants_tree (Suc fuel) subs d name =
     seq_opt (map (\<lambda>b. seq_opt (map (\<lambda>i.
        if i = name then
          map_option
            ((#) ((if d = 1 then ''  * '' else replicate (4 * (d - 1)) (CHR '' '') @ ''|-- '')
                  @ component b @ newline))
            (dependants_tree fuel subs (Suc d) (component b))
        else Some []) (includes_list b))) subs)"

text \<open>A small MoM with loaded submanifests, used to run the definitions.\<close>

definition example_editors :: manifest where
  "example_editors =
     \<lparr>component = ''editors'', includes_list = [''os-core''], files = [], contentsize = 0\<rparr>"

definition example_dev :: manifest where
  "example_dev =
     \<lparr>component = ''dev'', includes_list = [''editors'', ''os-core''], files = [],
      contentsize = 0\<rparr>"

definition example_loaded_mom :: mom where
  "example_loaded_mom =
     \<lparr>manifests = [], submanifests = [example_editors, example_dev], mom_files = []\<rparr>"

definition example_rank :: "string \<Rightarrow> nat" where
  "example_rank s = (if s = ''os-core'' then 2 else if s = ''editors'' then 1 else 0)"

section \<open>Exit codes, messages and the state of the system\<close>

text \<open>
  \<^verbatim>\<open>enum swupd_code\<close>.  Its declaration is not part of the sources at hand; the
  constructors are the codes the functions below return.  \<open>SWUPD_STATUS n\<close> stands for a
  non-zero status \<open>n\<close> that a helper returning a plain \<^verbatim>\<open>int\<close> handed through.
\<close>

datatype swupd_code =
    SWUPD_OK
  | SWUPD_CURRENT_VERSION_UNKNOWN
  | SWUPD_COULDNT_LOAD_MOM
  | SWUPD_COULDNT_LOAD_MANIFEST
  | SWUPD_RECURSE_MANIFEST
  | SWUPD_INVALID_BUNDLE
  | SWUPD_BUNDLE_NOT_TRACKED
  | SWUPD_REQUIRED_BUNDLE_ERROR
  | SWUPD_DISK_SPACE_ERROR
  | SWUPD_COULDNT_REMOVE_FILE
  | SWUPD_COULDNT_LIST_DIR
  | SWUPD_TIME_UNKNOWN
  | SWUPD_INVALID_OPTION
  | SWUPD_STATUS int

text \<open>The output macros \<^verbatim>\<open>print\<close>, \<^verbatim>\<open>info\<close>, \<^verbatim>\<open>warn\<close>, \<^verbatim>\<open>error\<close> and \<^verbatim>\<open>debug\<close>.\<close>

datatype level = Print | Info | Warn | Error | Debug

text \<open>
  What a run does to the outside, in order: the messages it writes and the calls of
  helpers whose code is not at hand and whose work is on the live tree, the staging area
  or the network.
\<close>

datatype event =
    Msg level string
  | Telemetry bool "string option" int swupd_code
  | Remove_files_in_manifest_from_fs manifest
  | Rm_staging_dir_contents string
  | Download_subscribed_packs "sub list"
  | Download_fullfiles "file_rec list"
  | Swupd_rm string
  | Do_staging file_rec
  | Rename_staged_file_to_final "file_rec option"
  | Sync
  | Scripts_run_post_update

text \<open>
  The part of the file system that \<^verbatim>\<open>bundle.c\<close> itself reads and writes:
  \<^item> \<open>bundles_dir\<close>: the names in \<^verbatim>\<open><path_prefix>/usr/share/clear/bundles\<close>, the directory
    of the live tree that \<^verbatim>\<open>is_installed_bundle\<close> looks into (\<^verbatim>\<open>BUNDLES_DIR\<close>, taken at its
    default) and that \<^verbatim>\<open>track_installed\<close> copies; its entries are regular files;
  \<^item> \<open>outside\<close>: the paths relative to that directory that leave it through \<^verbatim>\<open>..\<close>, go
    down again and name something that exists (the rest of the file system, as far as
    \<^verbatim>\<open>stat\<close> can be asked about it through a bundle name);
  \<^item> \<open>tracking_dir\<close>: the names in \<^verbatim>\<open><state_dir>/bundles\<close>, \<open>None\<close> when the directory does
    not exist;
  \<^item> \<open>trace\<close>: the events so far.
\<close>

record world =
  bundles_dir :: "string list"
  outside :: "string list"
  tracking_dir :: "string list option"
  trace :: "event list"

definition emit :: "level \<Rightarrow> string \<Rightarrow> world \<Rightarrow> world" where
  "emit l s w = w\<lparr>trace := trace w @ [Msg l s]\<rparr>"

definition record_event :: "event \<Rightarrow> world \<Rightarrow> world" where
  "record_event e w = w\<lparr>trace := trace w @ [e]\<rparr>"

text \<open>
  A call of a helper that is not at hand: the helper's effect on the directories is
  whatever the helper (a parameter) says; the call itself is put on the trace.
\<close>

definition call :: "event \<Rightarrow> (world \<Rightarrow> 'a \<times> world) \<Rightarrow> world \<Rightarrow> 'a \<times> world" where
  "call e f w = (case f w of (r, w') \<Rightarrow> (r, w'\<lparr>trace := trace w @ [e]\<rparr>))"

text \<open>\<^verbatim>\<open>%d\<close>, \<^verbatim>\<open>%i\<close> and \<^verbatim>\<open>%ld\<close> of \<^verbatim>\<open>printf\<close>.\<close>

definition digit_char :: "nat \<Rightarrow> char" where
  "digit_char d = ''0123456789'' ! d"

fun decimal_digits :: "nat \<Rightarrow> string \<Rightarrow> string" where
  "decimal_digits n acc =
     (if n < 10 then digit_char n # acc
      else decimal_digits (n div 10) (digit_char (n mod 10) # acc))"

definition printf_d :: "int \<Rightarrow> string" where
  "printf_d i =
     (if 0 \<le> i then decimal_digits (nat i) [] else CHR ''-'' # decimal_digits (nat \<bar>i\<bar>) [])"

definition dquote :: string where
  "dquote = [CHR 0x22]"

text \<open>Integer division of C: the quotient is truncated towards zero.\<close>

definition c_div :: "int \<Rightarrow> int \<Rightarrow> int" where
  "c_div a b = (if (a < 0) = (b < 0) then \<bar>a\<bar> div \<bar>b\<bar> else - (\<bar>a\<bar> div \<bar>b\<bar>))"

section \<open>Helpers of \<^verbatim>\<open>bundle.c\<close> whose code is elsewhere\<close>

text \<open>
  Modelled from the spec: \<^verbatim>\<open>search_bundle_in_manifest\<close> (not in the sources at hand).
  The file list of the MoM holds one record per bundle whose \<open>filename\<close> is the name of
  the bundle; the search returns that record, or \<^verbatim>\<open>NULL\<close>.
\<close>

definition search_bundle_in_manifest :: "mom \<Rightarrow> string \<Rightarrow> file_rec option" where
  "search_bundle_in_manifest m bundle_name = find (\<lambda>f. filename f = bundle_name) (manifests m)"

text \<open>
  Modelled from the spec: \<^verbatim>\<open>component_subscribed\<close> (not in the sources at hand), the
  membership test of the subscription set.
\<close>

definition component_subscribed :: "sub list \<Rightarrow> string \<Rightarrow> bool" where
  "component_subscribed subs bundle_name = (bundle_name \<in> set (map sub_component subs))"

text \<open>
  Modelled from the spec: \<^verbatim>\<open>create_and_append_subscription\<close> (not in the sources at
  hand) appends a subscription for the bundle; its version is filled in later by
  \<^verbatim>\<open>set_subscription_versions\<close>.
\<close>

definition create_and_append_subscription :: "sub list \<Rightarrow> string \<Rightarrow> sub list" where
  "create_and_append_subscription subs bundle_name =
     subs @ [\<lparr>sub_component = bundle_name, sub_version = 0\<rparr>]"

text \<open>
  \<^verbatim>\<open>stat\<close> of \<^verbatim>\<open><path_prefix>/<BUNDLES_DIR>/<name>\<close>.  The name is cut at the slashes
  and resolved from the directory, which is there: an empty component and \<^verbatim>\<open>.\<close> stay where
  they are; a component that is an entry of the directory names a regular file, after
  which nothing may follow, not even a slash; any other component does not exist; \<^verbatim>\<open>..\<close>
  leaves the directory, whose ancestors are there, and what a path finds when it goes down
  again is for \<open>outside\<close> to say.
\<close>

fun path_components :: "string \<Rightarrow> string list" where
  "path_components [] = [[]]"
| "path_components (c # cs) =
     (if c = CHR ''/'' then [] # path_components cs
      else (case path_components cs of
              [] \<Rightarrow> [[c]]
            | x # xs \<Rightarrow> (c # x) # xs))"

fun stat_from_bundles_dir :: "world \<Rightarrow> string \<Rightarrow> string list \<Rightarrow> bool" where
  "stat_from_bundles_dir w name [] = True"
| "stat_from_bundles_dir w name (c # cs) =
     (if c = [] \<or> c = ''.'' then stat_from_bundles_dir w name cs
      else if c = ''..'' then
        list_all (\<lambda>d. d = [] \<or> d = ''.'' \<or> d = ''..'') cs \<or> name \<in> set (outside w)
      else c \<in> set (bundles_dir w) \<and> cs = [])"

text \<open>
  \<^verbatim>\<open>is_installed_bundle\<close>: \<^verbatim>\<open>stat\<close> of \<^verbatim>\<open><path_prefix>/<BUNDLES_DIR>/<bundle_name>\<close>
  succeeds.
\<close>

definition is_installed_bundle :: "world \<Rightarrow> string \<Rightarrow> bool" where
  "is_installed_bundle w bundle_name =
     stat_from_bundles_dir w bundle_name (path_components bundle_name)"
section \<open>\<^verbatim>\<open>add_subscriptions\<close>\<close>

text \<open>The bits of the result, as the comment above the function gives them.\<close>

definition add_sub_ERR :: int where "add_sub_ERR = 1"
definition add_sub_NEW :: int where "add_sub_NEW = 2"
definition add_sub_BADNAME :: int where "add_sub_BADNAME = 4"

text \<open>
  \<^verbatim>\<open>add_subscriptions(bundles, subs, mom, find_all, recursion)\<close>.  The parameter
  \<open>load\<close> is \<^verbatim>\<open>load_manifest(file->last_change, file, mom, true, &err)\<close>, with
  \<open>None\<close> for \<^verbatim>\<open>NULL\<close>; the content server and the manifest cache are taken to answer the
  same way throughout one run.  \<open>ret\<close>, \<open>subs\<close> and the world are threaded through the
  \<^verbatim>\<open>while\<close> loop; the result is the value of \<open>ret\<close> at \<^verbatim>\<open>out:\<close> with the subscriptions
  and the world left behind.

  The C function recurses on the includes of each manifest without a bound: when the
  includes form a cycle it never returns.  The first argument bounds the depth of the
  recursion, \<open>None\<close> says that the bound was reached.
\<close>

fun add_subscriptions ::
  "nat \<Rightarrow> (file_rec \<Rightarrow> manifest option) \<Rightarrow> mom \<Rightarrow> bool \<Rightarrow> int \<Rightarrow> string list \<Rightarrow>
   int \<Rightarrow> sub list \<Rightarrow> world \<Rightarrow> (int \<times> sub list \<times> world) option" where
  "add_subscriptions 0 load m find_all recursion bundles ret subs w = None"
| "add_subscriptions (Suc fuel) load m find_all recursion [] ret subs w =
     Some (ret, subs, w)"
| "add_subscriptions (Suc fuel) load m find_all recursion (bundle # iter) ret subs w =
     (case search_bundle_in_manifest m bundle of
        None \<Rightarrow>
          add_subscriptions (Suc fuel) load m find_all recursion iter
            (ret OR add_sub_BADNAME) subs
            (emit Warn (''Bundle '' @ dquote @ bundle @ dquote @ '' is invalid, skipping it...''
                        @ newline) w)
      | Some file \<Rightarrow>
          if component_subscribed subs bundle \<and> recursion > 0 then
            add_subscriptions (Suc fuel) load m find_all recursion iter ret subs w
          else
            (case load file of
               None \<Rightarrow>
                 Some (ret OR add_sub_ERR, subs,
                   emit Error (''Unable to download manifest '' @ bundle @ '' version ''
                     @ printf_d (last_change file) @ '', exiting now'' @ newline) w)
             | Some manifest \<Rightarrow>
                 (case (if includes_list manifest \<noteq> [] then
                          add_subscriptions fuel load m find_all (recursion + 1)
                            (includes_list manifest) 0 subs w
                        else Some (0, subs, w)) of
                    None \<Rightarrow> None
                  | Some (r, subs', w') \<Rightarrow>
                      if r AND add_sub_ERR \<noteq> 0 then Some (ret, subs', w')
                      else if \<not> find_all \<and> is_installed_bundle w' bundle then
                        add_subscriptions (Suc fuel) load m find_all recursion iter
                          (ret OR r) subs' w'
                      else if component_subscribed subs' bundle then
                        add_subscriptions (Suc fuel) load m find_all recursion iter
                          (ret OR r) subs' w'
                      else
                        add_subscriptions (Suc fuel) load m find_all recursion iter
                          (ret OR r OR add_sub_NEW)
                          (create_and_append_subscription subs' bundle) w')))"

section \<open>The algorithm of \<^verbatim>\<open>add_subscriptions\<close> as the specification gives it\<close>



text \<open>A MoM with four bundles and two content servers, used to run the definitions.\<close>

definition example_file :: "string \<Rightarrow> file_rec" where
  "example_file n =
     \<lparr>filename = n, hash = ''0a'', last_change = 10, is_dir = False, is_deleted = False,
      do_not_update = False, is_experimental = False, staging = None\<rparr>"

definition example_mom :: mom where
  "example_mom =
     \<lparr>manifests = [example_file ''os-core'', example_file ''editors'', example_file ''dev'',
                   example_file ''games''],
      submanifests = [], mom_files = []\<rparr>"





text \<open>
  \<open>appended_only w m find_all subs subs'\<close>: \<open>subs'\<close> is \<open>subs\<close> with new subscriptions at its
  end, each for a bundle of the MoM that was not subscribed and is not installed (unless
  \<open>find_all\<close>), no bundle twice.
\<close>

definition appended_only :: "world \<Rightarrow> mom \<Rightarrow> bool \<Rightarrow> sub list \<Rightarrow> sub list \<Rightarrow> bool" where
  "appended_only w m find_all subs subs' =
     (\<exists>new. subs' = subs @ new \<and> distinct (map sub_component new) \<and>
        (\<forall>s\<in>set new. \<not> component_subscribed subs (sub_component s) \<and>
           search_bundle_in_manifest m (sub_component s) \<noteq> None \<and>
           (find_all \<or> \<not> is_installed_bundle w (sub_component s))))"

section \<open>The surroundings of \<^verbatim>\<open>bundle.c\<close>\<close>

text \<open>
  System calls and file helpers.  The two directories of the world are modelled; whether
  an operation on them fails for a reason outside the model (permissions, a full disk)
  is asked here, the answer being the return value of the call (0 for success).
  \<open>mk_full_filename\<close> (not in the sources at hand) joins a directory and a name.
\<close>

record system =
  state_dir :: string
  path_prefix :: string
  mk_full_filename :: "string \<Rightarrow> string \<Rightarrow> string"
  rm_rf_ret :: "string \<Rightarrow> world \<Rightarrow> int"
  copy_all_ret :: "string \<Rightarrow> string \<Rightarrow> world \<Rightarrow> int"
  chmod_ret :: "string \<Rightarrow> world \<Rightarrow> int"
  open_creat_fails :: "string \<Rightarrow> world \<Rightarrow> bool"
  swupd_rm_ret :: "string \<Rightarrow> world \<Rightarrow> int"

text \<open>
  The functions of the repository that \<^verbatim>\<open>bundle.c\<close> calls and whose code is not at hand,
  with the global settings it reads.  Each is a parameter.  The manifest store
  (\<open>load_mom\<close>, \<open>load_manifest\<close>, \<open>recurse_manifest\<close>) is taken to answer the same way
  throughout one run.  A helper that works on the live tree, the staging area or the
  network gets the world and gives back its result with the world it leaves.
\<close>

record env =
  sys :: system
  swupd_init :: swupd_code
  get_current_version :: int
  mix_exists :: bool
  exit_code_number :: "swupd_code \<Rightarrow> int"
  load_mom :: "int \<Rightarrow> bool \<Rightarrow> bool \<Rightarrow> mom option"
  load_manifest :: "file_rec \<Rightarrow> manifest option"
  recurse_manifest :: "mom \<Rightarrow> sub list \<Rightarrow> string option \<Rightarrow> bool \<Rightarrow> manifest list"
  read_subscriptions :: "world \<Rightarrow> sub list \<Rightarrow> sub list"
  set_subscription_versions :: "mom \<Rightarrow> sub list \<Rightarrow> sub list"
  files_from_bundles :: "manifest list \<Rightarrow> file_rec list"
  consolidate_files :: "file_rec list \<Rightarrow> file_rec list"
  filter_out_deleted_files :: "file_rec list \<Rightarrow> file_rec list"
  filter_out_existing_files :: "file_rec list \<Rightarrow> file_rec list \<Rightarrow> file_rec list"
  file_sort_filename :: "file_rec list \<Rightarrow> file_rec list"
  deduplicate_files_from_manifest :: "manifest \<Rightarrow> mom \<Rightarrow> manifest"
  remove_files_in_manifest_from_fs :: "manifest \<Rightarrow> world \<Rightarrow> world"
  skip_diskspace_check :: bool
  get_manifest_list_contentsize :: "manifest list \<Rightarrow> int"
  get_available_space :: "string \<Rightarrow> world \<Rightarrow> int"
  rm_staging_dir_contents :: "string \<Rightarrow> world \<Rightarrow> world"
  download_subscribed_packs :: "sub list \<Rightarrow> mom \<Rightarrow> world \<Rightarrow> world"
  download_fullfiles :: "file_rec list \<Rightarrow> world \<Rightarrow> int \<times> world"
  staged_access :: "string \<Rightarrow> world \<Rightarrow> int"
  verify_file :: "file_rec \<Rightarrow> string \<Rightarrow> world \<Rightarrow> bool"
  swupd_rm :: "string \<Rightarrow> world \<Rightarrow> int \<times> world"
  ignore_file :: "file_rec \<Rightarrow> bool"
  apply_heuristics :: "file_rec \<Rightarrow> file_rec"
  do_staging :: "file_rec \<Rightarrow> mom \<Rightarrow> world \<Rightarrow> (int \<times> file_rec) \<times> world"
  search_file_in_manifest :: "mom \<Rightarrow> string \<Rightarrow> file_rec option"
  rename_staged_file_to_final :: "file_rec option \<Rightarrow> world \<Rightarrow> world"
  scripts_run_post_update :: "world \<Rightarrow> world"

section \<open>Tracking files\<close>

definition tracking_dir_name :: "system \<Rightarrow> string" where
  "tracking_dir_name s = mk_full_filename s (state_dir s) ''bundles''"

text \<open>
  Modelled from the spec: \<^verbatim>\<open>is_populated_dir\<close> (not in the sources at hand); the
  directory exists and is not empty.
\<close>

definition is_populated_dir :: "world \<Rightarrow> bool" where
  "is_populated_dir w = (case tracking_dir w of None \<Rightarrow> False | Some names \<Rightarrow> names \<noteq> [])"

text \<open>
  The end of \<^verbatim>\<open>track_installed\<close>: \<^verbatim>\<open>open(tracking_file, O_RDWR | O_CREAT, ...)\<close>, and the
  \<^verbatim>\<open>debug\<close> message at \<^verbatim>\<open>out:\<close> when \<open>ret\<close> is not 0.  The file cannot be made in a directory
  that does not exist.
\<close>

definition track_installed_failed :: "system \<Rightarrow> string \<Rightarrow> world \<Rightarrow> world" where
  "track_installed_failed s bundle_name w =
     emit Debug (''Issue creating tracking file in '' @ tracking_dir_name s @ '' for ''
                 @ bundle_name @ newline) w"

definition track_installed_open :: "system \<Rightarrow> string \<Rightarrow> world \<Rightarrow> world" where
  "track_installed_open s bundle_name w =
     (let tracking_file = mk_full_filename s (tracking_dir_name s) bundle_name in
      case tracking_dir w of
        None \<Rightarrow> track_installed_failed s bundle_name w
      | Some names \<Rightarrow>
          if open_creat_fails s tracking_file w then track_installed_failed s bundle_name w
          else w\<lparr>tracking_dir := Some (List.insert bundle_name names)\<rparr>)"

text \<open>
  \<^verbatim>\<open>track_installed\<close>.  \<^verbatim>\<open>rm_rf\<close> and \<^verbatim>\<open>copy_all\<close> are not in the sources at hand; modelled
  from the spec: when the tracking directory of the state is empty or missing it is
  replaced by a copy of the tracking directory of the image, and the marker \<^verbatim>\<open>.MoM\<close> is
  taken out of the copy.  A helper that fails leaves the directories as they are.
\<close>

definition track_installed :: "system \<Rightarrow> string \<Rightarrow> world \<Rightarrow> world" where
  "track_installed s bundle_name w =
     (let dst = tracking_dir_name s in
      if \<not> is_populated_dir w then
        if rm_rf_ret s dst w \<noteq> 0 then track_installed_failed s bundle_name w
        else
          let w1 = w\<lparr>tracking_dir := None\<rparr>;
              src = mk_full_filename s (path_prefix s) ''/usr/share/clear/bundles'' in
          if copy_all_ret s src (state_dir s) w1 \<noteq> 0 then track_installed_failed s bundle_name w1
          else
            let w2 = w1\<lparr>tracking_dir := Some (bundles_dir w1)\<rparr>;
                w3 = w2\<lparr>tracking_dir := map_option (removeAll ''.MoM'') (tracking_dir w2)\<rparr> in
            if chmod_ret s dst w3 \<noteq> 0 then track_installed_failed s bundle_name w3
            else track_installed_open s bundle_name w3
      else track_installed_open s bundle_name w)"

text \<open>
  \<^verbatim>\<open>remove_tracked\<close>: \<^verbatim>\<open>swupd_rm\<close> of the tracking file, whose failure is ignored.
\<close>

definition remove_tracked :: "system \<Rightarrow> string \<Rightarrow> world \<Rightarrow> world" where
  "remove_tracked s bundle_name w =
     (let tracking_file = mk_full_filename s (tracking_dir_name s) bundle_name in
      if swupd_rm_ret s tracking_file w = 0 then
        w\<lparr>tracking_dir := map_option (removeAll bundle_name) (tracking_dir w)\<rparr>
      else w)"

section \<open>\<^verbatim>\<open>remove_bundles\<close>\<close>

text \<open>
  \<^verbatim>\<open>unload_tracked_bundle\<close>: the first subscription of the bundle is taken out of the list
  (\<^verbatim>\<open>free_bundle\<close>), or \<^verbatim>\<open>SWUPD_BUNDLE_NOT_TRACKED\<close> when there is none.
\<close>

fun unload_tracked_bundle :: "string \<Rightarrow> sub list \<Rightarrow> swupd_code \<times> sub list" where
  "unload_tracked_bundle bundle_name [] = (SWUPD_BUNDLE_NOT_TRACKED, [])"
| "unload_tracked_bundle bundle_name (cur_item # bundles) =
     (if sub_component cur_item = bundle_name then (SWUPD_OK, bundles)
      else (case unload_tracked_bundle bundle_name bundles of
              (ret, rest) \<Rightarrow> (ret, cur_item # rest)))"

text \<open>\<^verbatim>\<open>load_bundle_manifest\<close>: the result and \<^verbatim>\<open>*submanifest\<close>.\<close>

definition load_bundle_manifest ::
  "env \<Rightarrow> string \<Rightarrow> sub list \<Rightarrow> int \<Rightarrow> swupd_code \<times> manifest option" where
  "load_bundle_manifest e bundle_name subs version =
     (case load_mom e version False False of
        None \<Rightarrow> (SWUPD_COULDNT_LOAD_MOM, None)
      | Some m \<Rightarrow>
          (case recurse_manifest e m subs (Some bundle_name) False of
             [] \<Rightarrow> (SWUPD_RECURSE_MANIFEST, None)
           | data # _ \<Rightarrow> (SWUPD_OK, Some data)))"

text \<open>The lines written when the bundle is required by another installed bundle.\<close>

definition required_by_report :: "string list \<Rightarrow> world \<Rightarrow> world" where
  "required_by_report reqd_by w =
     fold (emit Info) reqd_by
       (emit Info ('' # * is-also-required-by'' @ newline @ '' # ...'' @ newline @ newline)
       (emit Info ('' #   |-- is-required-by'' @ newline)
       (emit Info ('' # * is-required-by'' @ newline)
       (emit Info (''format:'' @ newline)
       (emit Error
          (''bundle requested to be removed is required by the following bundles:'' @ newline)
          w)))))"

text \<open>
  One turn of the \<^verbatim>\<open>for\<close> loop of \<^verbatim>\<open>remove_bundles\<close>, up to the label \<^verbatim>\<open>out_free_curl\<close>,
  in three pieces.  Each gives the value of \<open>ret\<close> at the label, the increment of \<open>bad\<close>,
  the subscriptions and the world.

  The last piece: from \<^verbatim>\<open>load_bundle_manifest\<close> to \<^verbatim>\<open>remove_tracked\<close>.
\<close>

definition remove_bundle_files ::
  "env \<Rightarrow> int \<Rightarrow> string \<Rightarrow> sub list \<Rightarrow> mom \<Rightarrow> world \<Rightarrow> swupd_code \<times> int \<times> sub list \<times> world"
  where
  "remove_bundle_files e current_version bundle subs current_mom w =
     (case load_bundle_manifest e bundle subs current_version of
        (ret, bundle_manifest) \<Rightarrow>
          (case bundle_manifest of
             None \<Rightarrow>
               (ret, 1, subs,
                emit Error (''Cannot load '' @ bundle @ '' sub-manifest (ret = ''
                            @ printf_d (exit_code_number e ret) @ '')'' @ newline) w)
           | Some loaded_manifest \<Rightarrow>
               if ret \<noteq> SWUPD_OK then
                 (ret, 1, subs,
                  emit Error (''Cannot load '' @ bundle @ '' sub-manifest (ret = ''
                              @ printf_d (exit_code_number e ret) @ '')'' @ newline) w)
               else
                 let sorted = loaded_manifest
                       \<lparr>files := file_sort_filename e (files loaded_manifest)\<rparr>;
                     unique = deduplicate_files_from_manifest e sorted current_mom;
                     w2 = emit Info (''Deleting bundle files...'' @ newline) w;
                     w3 = snd (call (Remove_files_in_manifest_from_fs unique)
                                 (\<lambda>w. ((), remove_files_in_manifest_from_fs e unique w)) w2);
                     w4 = remove_tracked (sys e) (component unique) w3
                 in (SWUPD_OK, 0, subs, w4)))"

text \<open>
  The middle piece: from \<^verbatim>\<open>read_subscriptions\<close> to the check that no other installed
  bundle requires the bundle.  \<open>None\<close>: \<^verbatim>\<open>required_by\<close> did not come back.
\<close>

definition remove_bundle_tracked ::
  "nat \<Rightarrow> env \<Rightarrow> int \<Rightarrow> string \<Rightarrow> mom \<Rightarrow> sub list \<Rightarrow> world \<Rightarrow>
   (swupd_code \<times> int \<times> sub list \<times> world) option" where
  "remove_bundle_tracked fuel e current_version bundle current_mom subs w =
     (case unload_tracked_bundle bundle (read_subscriptions e w subs) of
        (ret, subs2) \<Rightarrow>
          if ret \<noteq> SWUPD_OK then Some (ret, 1, subs2, w)
          else
            let subs3 = set_subscription_versions e current_mom subs2;
                loaded = recurse_manifest e current_mom subs3 None False in
            if loaded = [] then
              Some (SWUPD_RECURSE_MANIFEST, 1, subs3,
                emit Error (''Cannot load MoM sub-manifests'' @ newline) w)
            else
              (case required_by fuel (current_mom\<lparr>submanifests := loaded\<rparr>) 0 bundle [] of
                 None \<Rightarrow> None
               | Some reqd_by \<Rightarrow>
                   if reqd_by \<noteq> [] then
                     Some (SWUPD_REQUIRED_BUNDLE_ERROR, 1, subs3, required_by_report reqd_by w)
                   else
                     Some (remove_bundle_files e current_version bundle subs3
                       (current_mom\<lparr>submanifests := loaded,
                          mom_files := consolidate_files e (files_from_bundles e loaded)\<rparr>)
                       w)))"

text \<open>
  The turn from its start.  \<open>several\<close> is \<^verbatim>\<open>*(bundles + 1) || total > 0\<close>.
\<close>

definition remove_bundle ::
  "nat \<Rightarrow> env \<Rightarrow> int \<Rightarrow> bool \<Rightarrow> string \<Rightarrow> sub list \<Rightarrow> world \<Rightarrow>
   (swupd_code \<times> int \<times> sub list \<times> world) option" where
  "remove_bundle fuel e current_version several bundle subs w =
     (if bundle = ''os-core'' then
        Some (SWUPD_REQUIRED_BUNDLE_ERROR, 1, subs,
          emit Warn (''Bundle '' @ dquote @ ''os-core'' @ dquote @ '' not allowed to be removed''
                     @ newline) w)
      else if \<not> is_installed_bundle w bundle then
        Some (SWUPD_BUNDLE_NOT_TRACKED, 1, subs,
          emit Warn (''Bundle '' @ dquote @ bundle @ dquote @ '' is not installed, skipping it...''
                     @ newline) w)
      else
        let w1 = (if several then emit Info (''Removing bundle: '' @ bundle @ newline) w else w)
        in
        case load_mom e current_version False (mix_exists e) of
          None \<Rightarrow>
            Some (SWUPD_COULDNT_LOAD_MOM, 1, subs,
              emit Error (''Unable to download/verify '' @ printf_d current_version
                          @ '' Manifest.MoM'' @ newline) w1)
        | Some current_mom \<Rightarrow>
            (case search_bundle_in_manifest current_mom bundle of
               None \<Rightarrow>
                 Some (SWUPD_INVALID_BUNDLE, 1, subs,
                   emit Error (''Bundle name is invalid, aborting removal'' @ newline) w1)
             | Some _ \<Rightarrow>
                 remove_bundle_tracked fuel e current_version bundle current_mom subs w1))"

text \<open>
  The \<^verbatim>\<open>for\<close> loop: after each bundle the telemetry record, \<open>ret_code\<close> taking the value of
  \<open>ret\<close> when it is not 0, and \<open>total\<close> counting.
\<close>

fun remove_bundles_loop ::
  "nat \<Rightarrow> env \<Rightarrow> int \<Rightarrow> string list \<Rightarrow> swupd_code \<Rightarrow> int \<Rightarrow> int \<Rightarrow> sub list \<Rightarrow> world \<Rightarrow>
   (swupd_code \<times> int \<times> int \<times> sub list \<times> world) option" where
  "remove_bundles_loop fuel e current_version [] ret_code bad total_n subs w =
     Some (ret_code, bad, total_n, subs, w)"
| "remove_bundles_loop fuel e current_version (bundle # bundles) ret_code bad total_n subs w =
     (case remove_bundle fuel e current_version (bundles \<noteq> [] \<or> total_n > 0) bundle subs w of
        None \<Rightarrow> None
      | Some (ret, failed, subs', w') \<Rightarrow>
          remove_bundles_loop fuel e current_version bundles
            (if ret \<noteq> SWUPD_OK then ret else ret_code) (bad + failed) (total_n + 1) subs'
            (record_event (Telemetry (ret \<noteq> SWUPD_OK) (Some bundle) current_version ret) w'))"

text \<open>
  \<^verbatim>\<open>remove_bundles\<close>: the exit code and the world.  What \<^verbatim>\<open>swupd_init\<close> and
  \<^verbatim>\<open>swupd_deinit\<close> do to the system is not part of the model.
\<close>

definition remove_bundles ::
  "nat \<Rightarrow> env \<Rightarrow> string list \<Rightarrow> world \<Rightarrow> (swupd_code \<times> world) option" where
  "remove_bundles fuel e bundles w =
     (if swupd_init e \<noteq> SWUPD_OK then
        Some (swupd_init e,
              emit Error (''Failed updater initialization, exiting now.'' @ newline) w)
      else
        let current_version = get_current_version e in
        if current_version < 0 then
          Some (SWUPD_CURRENT_VERSION_UNKNOWN,
            record_event
              (Telemetry True (case bundles of [] \<Rightarrow> None | first # _ \<Rightarrow> Some first)
                 current_version SWUPD_CURRENT_VERSION_UNKNOWN)
              (emit Error (''Unable to determine current OS version'' @ newline) w))
        else
          (case remove_bundles_loop fuel e current_version bundles SWUPD_OK 0 0 [] w of
             None \<Rightarrow> None
           | Some (ret_code, bad, total_n, subs, w') \<Rightarrow>
               Some (ret_code,
                 if bad > 0 then
                   emit Print (''Failed to remove '' @ printf_d bad @ '' of '' @ printf_d total_n
                               @ '' bundles'' @ newline) w'
                 else
                   emit Print (''Successfully removed '' @ printf_d total_n @ '' bundle''
                               @ (if total_n > 1 then ''s'' else '''') @ newline) w')))"

text \<open>
  The value of \<open>ret\<close> after each turn of the loop, in the order of the bundles: what the
  command reports per bundle.
\<close>

fun remove_bundles_codes ::
  "nat \<Rightarrow> env \<Rightarrow> int \<Rightarrow> string list \<Rightarrow> int \<Rightarrow> sub list \<Rightarrow> world \<Rightarrow> swupd_code list option"
  where
  "remove_bundles_codes fuel e current_version [] total_n subs w = Some []"
| "remove_bundles_codes fuel e current_version (bundle # bundles) total_n subs w =
     (case remove_bundle fuel e current_version (bundles \<noteq> [] \<or> total_n > 0) bundle subs w of
        None \<Rightarrow> None
      | Some (ret, failed, subs', w') \<Rightarrow>
          map_option ((#) ret)
            (remove_bundles_codes fuel e current_version bundles (total_n + 1) subs'
               (record_event (Telemetry (ret \<noteq> SWUPD_OK) (Some bundle) current_version ret) w')))"

text \<open>The first and the last code of a list that is not \<^verbatim>\<open>SWUPD_OK\<close>.\<close>

definition first_failure :: "swupd_code list \<Rightarrow> swupd_code" where
  "first_failure codes =
     (case filter (\<lambda>c. c \<noteq> SWUPD_OK) codes of [] \<Rightarrow> SWUPD_OK | c # _ \<Rightarrow> c)"

definition last_failure :: "swupd_code list \<Rightarrow> swupd_code" where
  "last_failure codes =
     (case rev (filter (\<lambda>c. c \<noteq> SWUPD_OK) codes) of [] \<Rightarrow> SWUPD_OK | c # _ \<Rightarrow> c)"

section \<open>The comparison \<^verbatim>\<open>(bundle_size * 1.1) > fs_free\<close>\<close>

text \<open>
  Both operands are \<^verbatim>\<open>long\<close>; the product is computed in \<^verbatim>\<open>double\<close> (IEEE 754 binary64,
  rounding to nearest, ties to even, as on x86-64), and \<^verbatim>\<open>fs_free\<close> is converted to
  \<^verbatim>\<open>double\<close> for the comparison.  The values of the doubles involved are integers or
  integers scaled by \<open>2 ^ 52\<close>, so the arithmetic is done on integers:
  \<^item> \<open>round_ties_even n s\<close> is \<open>n / 2 ^ s\<close> rounded to the nearest integer, ties to even;
  \<^item> \<open>round_to_double n\<close> is \<open>n\<close>, not negative, rounded to 53 significant bits;
  \<^item> the double nearest to 1.1 is \<open>4953959590107546 / 2 ^ 52\<close>.
\<close>

definition round_ties_even :: "int \<Rightarrow> nat \<Rightarrow> int" where
  "round_ties_even n s =
     (let q = n div 2 ^ s; r = n mod 2 ^ s in
      if 2 ^ s < 2 * r \<or> (2 * r = 2 ^ s \<and> odd q) then q + 1 else q)"

function bit_length :: "int \<Rightarrow> nat" where
  "bit_length n = (if n \<le> 0 then 0 else Suc (bit_length (n div 2)))"
  by pat_completeness auto
termination
  by (relation "measure nat") auto

definition round_to_double :: "int \<Rightarrow> int" where
  "round_to_double n = (let s = bit_length n - 53 in round_ties_even n s * 2 ^ s)"

text \<open>\<^verbatim>\<open>(double)x\<close> for a \<^verbatim>\<open>long\<close> \<open>x\<close>: the value of the double.\<close>

definition double_of_long :: "int \<Rightarrow> int" where
  "double_of_long x = (if 0 \<le> x then round_to_double x else - round_to_double (- x))"

definition double_1_1 :: int where
  "double_1_1 = 4953959590107546"

text \<open>\<^verbatim>\<open>x * 1.1\<close> for a double \<open>x\<close> of integer value: the value of the product times \<open>2 ^ 52\<close>.\<close>

definition times_1_1 :: "int \<Rightarrow> int" where
  "times_1_1 x =
     (if 0 \<le> x then round_to_double (x * double_1_1)
      else - round_to_double (- x * double_1_1))"

definition size_exceeds :: "int \<Rightarrow> int \<Rightarrow> bool" where
  "size_exceeds bundle_size fs_free =
     (double_of_long fs_free * 2 ^ 52 < times_1_1 (double_of_long bundle_size))"

section \<open>\<^verbatim>\<open>install_bundles\<close>\<close>

text \<open>
  The loop after \<^verbatim>\<open>add_subscriptions\<close>: every requested bundle that is installed is
  reported, counted in \<^verbatim>\<open>already_installed\<close> and tracked; an experimental one is reported.
\<close>

fun warn_already_installed ::
  "system \<Rightarrow> mom \<Rightarrow> string list \<Rightarrow> int \<Rightarrow> world \<Rightarrow> int \<times> world" where
  "warn_already_installed s m [] already_installed w = (already_installed, w)"
| "warn_already_installed s m (bundle # iter) already_installed w =
     (let (n, w1) =
            (if is_installed_bundle w bundle then
               (already_installed + 1,
                track_installed s bundle
                  (emit Warn (''Bundle '' @ dquote @ bundle @ dquote
                              @ '' is already installed, skipping it...'' @ newline) w))
             else (already_installed, w));
          w2 = (case search_bundle_in_manifest m bundle of
                  None \<Rightarrow> w1
                | Some file \<Rightarrow>
                    if is_experimental file then
                      emit Warn (''Bundle '' @ bundle @ '' is experimental'' @ newline) w1
                    else w1)
      in warn_already_installed s m iter n w2)"

text \<open>
  Step 3, the check of the disk space: \<open>Some\<close> of the world with the messages when the
  installation has to stop with \<^verbatim>\<open>SWUPD_DISK_SPACE_ERROR\<close>, \<open>None\<close> when it goes on.
\<close>

definition disk_space_check :: "env \<Rightarrow> manifest list \<Rightarrow> world \<Rightarrow> world option" where
  "disk_space_check e to_install_bundles w =
     (if skip_diskspace_check e then None
      else
        let bundle_size = get_manifest_list_contentsize e to_install_bundles;
            filepath = mk_full_filename (sys e) (path_prefix (sys e)) ''/usr/'';
            fs_free = get_available_space e filepath w
        in
        if size_exceeds bundle_size fs_free \<or> fs_free < 0 then
          Some
            (emit Info (''To skip this error and install anyways, ''
                        @ ''add the --skip-diskspace-check flag to your command.'' @ newline)
            (emit Info (''NOTE: currently, swupd only checks /usr/ ''
                        @ ''(or the passed-in path with /usr/ appended) for available space.''
                        @ newline)
            (if 0 < fs_free then
               emit Error (''Bundle too large by ''
                 @ printf_d (c_div (c_div (bundle_size - fs_free) 1000) 1000) @ ''M.'' @ newline) w
             else
               emit Error (''Unable to determine free space on filesystem.'' @ newline) w)))
        else None)"

text \<open>
  The check of the staged files before the installation: a staged file whose hash is
  wrong is removed; \<^verbatim>\<open>SWUPD_COULDNT_REMOVE_FILE\<close> when that fails.
\<close>

fun verify_staged :: "env \<Rightarrow> file_rec list \<Rightarrow> world \<Rightarrow> swupd_code \<times> world" where
  "verify_staged e [] w = (SWUPD_OK, w)"
| "verify_staged e (file # iter) w =
     (let hashpath = state_dir (sys e) @ ''/staged/'' @ hash file in
      if staged_access e hashpath w < 0 then verify_staged e iter w
      else if \<not> verify_file e file hashpath w then
        (case call (Swupd_rm hashpath) (swupd_rm e hashpath)
                (emit Info (''         will attempt to download fullfile for '' @ filename file
                            @ newline)
                (emit Warn (''hash check failed for '' @ filename file @ newline) w)) of
           (ret, w1) \<Rightarrow>
             if ret \<noteq> 0 then
               (SWUPD_COULDNT_REMOVE_FILE,
                emit Error (''could not remove bad file '' @ hashpath @ newline) w1)
             else verify_staged e iter w1)
      else verify_staged e iter w)"

definition skipped :: "env \<Rightarrow> file_rec \<Rightarrow> bool" where
  "skipped e file = (is_deleted file \<or> do_not_update file \<or> ignore_file e file)"

text \<open>
  The first loop over the files: \<^verbatim>\<open>apply_heuristics\<close> and \<^verbatim>\<open>do_staging\<close>, which write
  into the file record; the loop is left when \<^verbatim>\<open>do_staging\<close> fails.  The result is the
  value of \<open>ret\<close>, the records as the loop leaves them, and the world.
\<close>

fun stage_files :: "env \<Rightarrow> mom \<Rightarrow> file_rec list \<Rightarrow> world \<Rightarrow> int \<times> file_rec list \<times> world" where
  "stage_files e m [] w = (0, [], w)"
| "stage_files e m (file # iter) w =
     (if skipped e file then
        (case stage_files e m iter w of (ret, staged, w') \<Rightarrow> (ret, file # staged, w'))
      else
        (case call (Do_staging (apply_heuristics e file))
                (do_staging e (apply_heuristics e file) m) w of
           ((ret, file'), w1) \<Rightarrow>
             if ret \<noteq> 0 then (ret, file' # iter, w1)
             else
               (case stage_files e m iter w1 of (ret', staged, w') \<Rightarrow> (ret', file' # staged, w'))))"

text \<open>
  The second loop: the staged files get their final names.  A file that is not a
  directory and has no staging name was staged by \<^verbatim>\<open>verify_fix_path\<close>; its record is looked
  up in the MoM (\<open>None\<close> is \<^verbatim>\<open>NULL\<close>).
\<close>

definition rename_target :: "env \<Rightarrow> mom \<Rightarrow> file_rec \<Rightarrow> file_rec option" where
  "rename_target e m file =
     (if staging file = None \<and> \<not> is_dir file then search_file_in_manifest e m (filename file)
      else Some file)"

fun rename_files :: "env \<Rightarrow> mom \<Rightarrow> file_rec list \<Rightarrow> world \<Rightarrow> world" where
  "rename_files e m [] w = w"
| "rename_files e m (file # iter) w =
     (if skipped e file then rename_files e m iter w
      else
        rename_files e m iter
          (snd (call (Rename_staged_file_to_final (rename_target e m file))
                  (\<lambda>w. ((), rename_staged_file_to_final e (rename_target e m file) w)) w)))"

text \<open>Steps 4 to 7: packs, full files, the two loops, the scripts.\<close>

definition download_and_install ::
  "env \<Rightarrow> sub list \<Rightarrow> mom \<Rightarrow> file_rec list \<Rightarrow> world \<Rightarrow> swupd_code \<times> world" where
  "download_and_install e subs m to_install_files w =
     (let w1 = snd (call (Rm_staging_dir_contents ''download'')
                      (\<lambda>w. ((), rm_staging_dir_contents e ''download'' w)) w);
          w2 = (if 10 < length to_install_files then
                  snd (call (Download_subscribed_packs subs)
                         (\<lambda>w. ((), download_subscribed_packs e subs m w)) w1)
                else emit Info (''No packs need to be downloaded'' @ newline) w1)
      in
      case call (Download_fullfiles to_install_files)
             (download_fullfiles e to_install_files) w2 of
        (ret, w3) \<Rightarrow>
          if ret \<noteq> 0 then
            (SWUPD_STATUS \<bar>ret\<bar>,
             emit Error (''Could not download some files from bundles, ''
                         @ ''aborting bundle installation.'' @ newline) w3)
          else
            (case verify_staged e to_install_files
                    (emit Info (''Installing bundle(s) files...'' @ newline) w3) of
               (ret, w4) \<Rightarrow>
                 if ret \<noteq> SWUPD_OK then (ret, w4)
                 else
                   (case stage_files e m to_install_files w4 of
                      (ret, staged, w5) \<Rightarrow>
                        if ret \<noteq> 0 then (SWUPD_STATUS ret, w5)
                        else
                          (SWUPD_OK,
                           snd (call Scripts_run_post_update
                                  (\<lambda>w. ((), scripts_run_post_update e w))
                                  (record_event Sync (rename_files e m staged w5)))))))"

text \<open>
  Step 2 with steps 3 to 7: the files to install are those of the bundles to install
  that the installed bundles do not have already.  \<open>m\<close> is the MoM with the installed
  bundles as its submanifests and their consolidated files as its files.
\<close>

definition to_install_files :: "env \<Rightarrow> mom \<Rightarrow> manifest list \<Rightarrow> file_rec list" where
  "to_install_files e m to_install_bundles =
     filter_out_existing_files e
       (filter_out_deleted_files e (consolidate_files e (files_from_bundles e to_install_bundles)))
       (filter_out_deleted_files e (mom_files m))"

definition install_files ::
  "env \<Rightarrow> sub list \<Rightarrow> mom \<Rightarrow> manifest list \<Rightarrow> world \<Rightarrow> swupd_code \<times> world" where
  "install_files e subs m to_install_bundles w =
     (case disk_space_check e to_install_bundles w of
        Some w' \<Rightarrow> (SWUPD_DISK_SPACE_ERROR, w')
      | None \<Rightarrow> download_and_install e subs m (to_install_files e m to_install_bundles) w)"

text \<open>
  The label \<^verbatim>\<open>out:\<close>.  Every bundle to install that was requested is counted and tracked,
  the totals are written, and \<^verbatim>\<open>SWUPD_INVALID_BUNDLE\<close> replaces a result of 0 when an
  invalid bundle was given.
\<close>

fun track_requested ::
  "system \<Rightarrow> string list \<Rightarrow> manifest list \<Rightarrow> int \<Rightarrow> world \<Rightarrow> int \<times> world" where
  "track_requested s bundles [] bundles_installed w = (bundles_installed, w)"
| "track_requested s bundles (to_install_manifest # iter) bundles_installed w =
     (if component to_install_manifest \<in> set bundles then
        track_requested s bundles iter (bundles_installed + 1)
          (track_installed s (component to_install_manifest) w)
      else track_requested s bundles iter bundles_installed w)"

definition install_out ::
  "env \<Rightarrow> string list \<Rightarrow> int \<Rightarrow> bool \<Rightarrow> swupd_code \<Rightarrow> manifest list \<Rightarrow> world \<Rightarrow>
   swupd_code \<times> world" where
  "install_out e bundles already_installed invalid_bundle_provided ret to_install_bundles w =
     (case track_requested (sys e) bundles to_install_bundles 0 w of
        (bundles_installed, w1) \<Rightarrow>
          let bundles_requested = int (length bundles);
              bundles_failed =
                (if ret \<noteq> SWUPD_OK \<and> bundles_installed \<noteq> 0 then
                   bundles_requested - already_installed
                 else bundles_requested - bundles_installed - already_installed);
              w2 = (if 0 < bundles_failed then
                      emit Print (''Failed to install '' @ printf_d bundles_failed @ '' of ''
                        @ printf_d (bundles_requested - already_installed) @ '' bundles''
                        @ newline) w1
                    else if bundles_installed \<noteq> 0 then
                      emit Print (''Successfully installed '' @ printf_d bundles_installed
                        @ '' bundle'' @ (if 1 < bundles_installed then ''s'' else '''')
                        @ newline) w1
                    else w1);
              w3 = (if already_installed \<noteq> 0 then
                      emit Print (printf_d already_installed @ '' bundle''
                        @ (if 1 < already_installed then ''s were'' else '' was'')
                        @ '' already installed'' @ newline) w2
                    else w2)
          in (if invalid_bundle_provided \<and> ret = SWUPD_OK then SWUPD_INVALID_BUNDLE else ret,
              w3))"

text \<open>
  The part between the check of \<^verbatim>\<open>add_sub_NEW\<close> and \<^verbatim>\<open>out:\<close>: the manifests of the bundles
  to install and of the installed bundles, then the files.  The result is the value of
  \<open>ret\<close> and of \<^verbatim>\<open>to_install_bundles\<close> at \<^verbatim>\<open>out:\<close>, with the subscriptions and the world.
  (\<^verbatim>\<open>mom->files\<close> is given the consolidated list before the deleted files are filtered out
  of it; that the filter works on the same list cells is not modelled.)
\<close>

definition install_new ::
  "env \<Rightarrow> sub list \<Rightarrow> mom \<Rightarrow> world \<Rightarrow> swupd_code \<times> manifest list \<times> sub list \<times> world" where
  "install_new e subs m w =
     (let subs2 = set_subscription_versions e m subs;
          to_install_bundles = recurse_manifest e m subs2 None False in
      if to_install_bundles = [] then
        (SWUPD_RECURSE_MANIFEST, [], subs2,
         emit Error (''Cannot load to install bundles'' @ newline) w)
      else
        let current_subs = set_subscription_versions e m (read_subscriptions e w []);
            installed_bundles = recurse_manifest e m current_subs None False in
        if installed_bundles = [] then
          (SWUPD_RECURSE_MANIFEST, to_install_bundles, subs2,
           emit Error (''Cannot load installed bundles'' @ newline) w)
        else
          (case install_files e subs2
                  (m\<lparr>submanifests := installed_bundles,
                     mom_files := consolidate_files e (files_from_bundles e installed_bundles)\<rparr>)
                  to_install_bundles w of
             (ret, w') \<Rightarrow> (ret, to_install_bundles, subs2, w')))"

text \<open>
  \<^verbatim>\<open>install_bundles(bundles, subs, mom)\<close>: the exit code, the subscriptions and the world.
  \<open>None\<close>: \<^verbatim>\<open>add_subscriptions\<close> did not come back.
\<close>

definition install_bundles ::
  "nat \<Rightarrow> env \<Rightarrow> string list \<Rightarrow> sub list \<Rightarrow> mom \<Rightarrow> world \<Rightarrow>
   (swupd_code \<times> sub list \<times> world) option" where
  "install_bundles fuel e bundles subs m w =
     (case add_subscriptions fuel (load_manifest e) m False 0 bundles 0 subs
             (emit Info (''Loading required manifests...'' @ newline) w) of
        None \<Rightarrow> None
      | Some (ret, subs1, w1) \<Rightarrow>
          (case warn_already_installed (sys e) m bundles 0 w1 of
             (already_installed, w2) \<Rightarrow>
               if ret AND add_sub_NEW = 0 then
                 (case install_out e bundles already_installed False
                         (if ret AND add_sub_ERR \<noteq> 0 then SWUPD_COULDNT_LOAD_MANIFEST
                          else if ret AND add_sub_BADNAME \<noteq> 0 then SWUPD_INVALID_BUNDLE
                          else SWUPD_OK)
                         [] w2 of
                    (code, w') \<Rightarrow> Some (code, subs1, w'))
               else
                 (case install_new e subs1 m w2 of
                    (code, to_install_bundles, subs2, w3) \<Rightarrow>
                      (case install_out e bundles already_installed
                              (ret AND add_sub_BADNAME \<noteq> 0) code to_install_bundles w3 of
                         (code', w') \<Rightarrow> Some (code', subs2, w')))))"

text \<open>
  \<open>messages_only w w'\<close>: the trace of \<open>w'\<close> is the trace of \<open>w\<close> followed by messages only;
  between the two worlds no helper was called that downloads, stages, renames or removes.
\<close>

fun is_message :: "event \<Rightarrow> bool" where
  "is_message (Msg l s) = True"
| "is_message ev = False"

definition messages_only :: "world \<Rightarrow> world \<Rightarrow> bool" where
  "messages_only w w' =
     (take (length (trace w)) (trace w') = trace w
      \<and> list_all is_message (drop (length (trace w)) (trace w')))"

text \<open>
  The names in the tracking directory, and a system whose calls on that directory (\<^verbatim>\<open>rm_rf\<close>,
  \<^verbatim>\<open>copy_all\<close>, \<^verbatim>\<open>chmod\<close>, \<^verbatim>\<open>open\<close>) all succeed.
\<close>

definition tracked :: "world \<Rightarrow> string list" where
  "tracked w = (case tracking_dir w of None \<Rightarrow> [] | Some names \<Rightarrow> names)"

definition tracking_succeeds :: "system \<Rightarrow> bool" where
  "tracking_succeeds s =
     ((\<forall>path w. rm_rf_ret s path w = 0) \<and> (\<forall>src dst w. copy_all_ret s src dst w = 0)
      \<and> (\<forall>path w. chmod_ret s path w = 0) \<and> (\<forall>path w. \<not> open_creat_fails s path w))"

section \<open>A small system to run the definitions on\<close>

text \<open>
  A content server with four bundles: \<open>editors\<close> includes \<open>os-core\<close>, \<open>dev\<close> includes
  \<open>editors\<close> and \<open>games\<close>.  Every bundle has one file and a content size of 100.
\<close>

definition example_manifest :: "string \<Rightarrow> manifest" where
  "example_manifest n =
     \<lparr>component = n,
      includes_list =
        (if n = ''editors'' then [''os-core'']
         else if n = ''dev'' then [''editors'', ''games''] else []),
      files = [example_file (''/usr/bin/'' @ n)],
      contentsize = 100\<rparr>"

definition example_system :: system where
  "example_system =
     \<lparr>state_dir = ''/var/lib/swupd'', path_prefix = '''',
      mk_full_filename = (\<lambda>dir name. dir @ ''/'' @ name),
      rm_rf_ret = (\<lambda>path w. 0),
      copy_all_ret = (\<lambda>src dst w. 0),
      chmod_ret = (\<lambda>path w. 0),
      open_creat_fails = (\<lambda>path w. False),
      swupd_rm_ret = (\<lambda>path w. 0)\<rparr>"

definition example_env :: env where
  "example_env =
     \<lparr>sys = example_system,
      swupd_init = SWUPD_OK,
      get_current_version = 10,
      mix_exists = False,
      exit_code_number = (\<lambda>c. if c = SWUPD_OK then 0 else 1),
      load_mom = (\<lambda>version latest mix. Some example_mom),
      load_manifest = (\<lambda>f. Some (example_manifest (filename f))),
      recurse_manifest = (\<lambda>m subs only server.
         case only of
           None \<Rightarrow> map (\<lambda>s. example_manifest (sub_component s)) subs
         | Some n \<Rightarrow> [example_manifest n]),
      read_subscriptions = (\<lambda>w subs.
         subs @ map (\<lambda>n. \<lparr>sub_component = n, sub_version = 0\<rparr>)
                  (filter (\<lambda>n. \<not> component_subscribed subs n) (bundles_dir w))),
      set_subscription_versions = (\<lambda>m subs. map (\<lambda>s. s\<lparr>sub_version := 10\<rparr>) subs),
      files_from_bundles = (\<lambda>ms. concat (map files ms)),
      consolidate_files = (\<lambda>fs. fs),
      filter_out_deleted_files = filter (\<lambda>f. \<not> is_deleted f),
      filter_out_existing_files = (\<lambda>fs installed.
         filter (\<lambda>f. filename f \<notin> set (map filename installed)) fs),
      file_sort_filename = (\<lambda>fs. fs),
      deduplicate_files_from_manifest = (\<lambda>bm m.
         bm\<lparr>files := filter (\<lambda>f. filename f \<notin> set (map filename (mom_files m))) (files bm)\<rparr>),
      remove_files_in_manifest_from_fs = (\<lambda>bm w.
         w\<lparr>bundles_dir := removeAll (component bm) (bundles_dir w)\<rparr>),
      skip_diskspace_check = False,
      get_manifest_list_contentsize = (\<lambda>ms. sum_list (map contentsize ms)),
      get_available_space = (\<lambda>path w. 1000000),
      rm_staging_dir_contents = (\<lambda>name w. w),
      download_subscribed_packs = (\<lambda>subs m w. w),
      download_fullfiles = (\<lambda>fs w. (0, w)),
      staged_access = (\<lambda>path w. 0),
      verify_file = (\<lambda>f path w. True),
      swupd_rm = (\<lambda>path w. (0, w)),
      ignore_file = (\<lambda>f. False),
      apply_heuristics = (\<lambda>f. f),
      do_staging = (\<lambda>f m w. ((0, f\<lparr>staging := Some (filename f @ ''.update'')\<rparr>), w)),
      search_file_in_manifest = (\<lambda>m n. find (\<lambda>f. filename f = n) (mom_files m)),
      rename_staged_file_to_final = (\<lambda>f w. w),
      scripts_run_post_update = (\<lambda>w. w)\<rparr>"

text \<open>A system with three bundles installed, and one with a bundle the MoM does not know.\<close>

definition example_installed :: world where
  "example_installed =
     \<lparr>bundles_dir = [''os-core'', ''editors'', ''dev''], outside = [], tracking_dir = None, trace = []\<rparr>"

definition example_stray :: world where
  "example_stray =
     \<lparr>bundles_dir = [''os-core'', ''editors'', ''nope''], outside = [], tracking_dir = None, trace = []\<rparr>"

definition example_remove_rank :: "string \<Rightarrow> nat" where
  "example_remove_rank s =
     (if s = ''os-core'' then 3 else if s = ''editors'' then 2 else if s = ''dev'' then 0 else 1)"

section \<open>Properties of \<^verbatim>\<open>required_by\<close>\<close>

lemma map_option_append_Nil [simp]: "map_option ((@) []) x = x"
  by (cases x) simp_all

lemma map_option_append_append [simp]:
  "map_option ((@) xs) (map_option ((@) ys) x) = map_option ((@) (xs @ ys)) x"
  by (cases x) simp_all

lemma map_option_append_lambda [simp]:
  "map_option (\<lambda>a. xs @ ys @ a) x = map_option ((@) (xs @ ys)) x"
  by (cases x) simp_all

lemma map_option_append_Cons [simp]:
  "map_option ((@) (xs @ [y])) x = map_option ((@) xs) (map_option ((#) y) x)"
  by (cases x) simp_all

lemma seq_opt_not_None: "(\<forall>x\<in>set xs. x \<noteq> None) \<Longrightarrow> seq_opt xs \<noteq> None"
  by (induction xs rule: seq_opt.induct) auto

lemma bundle_str_nat:
  "bundle_str (int d + 1) c =
     (if Suc d = 1 then ''  * '' else replicate (4 * (Suc d - 1)) (CHR '' '') @ ''|-- '')
     @ c @ newline"
  by (simp add: bundle_str_def pad_def Let_def nat_mult_distrib eval_nat_numeral)

lemma required_by_includes_tree:
  assumes self: "\<And>c acc. self c acc = map_option ((@) acc) (g c)"
  shows "required_by_includes self name r b is acc =
     map_option ((@) acc) (seq_opt (map (\<lambda>i.
        if i = name then map_option ((#) (bundle_str r (component b))) (g (component b))
        else Some []) is))"
proof (induction "is" arbitrary: acc)
  case Nil
  then show ?case by simp
next
  case (Cons i "is")
  show ?case
  proof (cases "i = name")
    case False
    then show ?thesis using Cons.IH by simp
  next
    case True
    show ?thesis
    proof (cases "g (component b)")
      case None
      then show ?thesis using True by (simp add: self)
    next
      case (Some below)
      then show ?thesis using True Cons.IH
        by (simp add: self option.map_comp comp_def split: option.splits)
    qed
  qed
qed

lemma required_by_bundles_tree:
  assumes self: "\<And>c acc. self c acc = map_option ((@) acc) (g c)"
  shows "required_by_bundles self name r bs acc =
     map_option ((@) acc) (seq_opt (map (\<lambda>b. seq_opt (map (\<lambda>i.
        if i = name then map_option ((#) (bundle_str r (component b))) (g (component b))
        else Some []) (includes_list b))) bs))"
proof (induction bs arbitrary: acc)
  case Nil
  then show ?case by simp
next
  case (Cons b bs)
  show ?case
  proof (cases "seq_opt (map (\<lambda>i.
        if i = name then map_option ((#) (bundle_str r (component b))) (g (component b))
        else Some []) (includes_list b))")
    case None
    then show ?thesis by (simp add: required_by_includes_tree [OF self])
  next
    case (Some ls)
    then show ?thesis
      by (simp add: required_by_includes_tree [OF self] Cons.IH)
  qed
qed

lemma required_by_tree:
  "required_by fuel m (int d) name acc =
     map_option ((@) acc) (dependants_tree fuel (submanifests m) (Suc d) name)"
proof (induction fuel arbitrary: d name acc)
  case 0
  then show ?case by simp
next
  case (Suc fuel)
  have self: "\<And>c acc. required_by fuel m (int d + 1) c acc =
      map_option ((@) acc) (dependants_tree fuel (submanifests m) (Suc (Suc d)) c)"
    using Suc.IH [of "Suc d"] by (simp add: add.commute)
  show ?case
    by (simp add: required_by_bundles_tree [OF self] bundle_str_nat cong: if_cong)
qed

lemma dependants_tree_step:
  assumes "\<forall>b\<in>set subs. \<forall>i\<in>set (includes_list b).
             i = name \<longrightarrow> dependants_tree fuel subs (Suc d) (component b) \<noteq> None"
  shows "dependants_tree (Suc fuel) subs d name \<noteq> None"
proof -
  have inner: "seq_opt (map (\<lambda>i.
        if i = name then
          map_option
            ((#) ((if d = 1 then ''  * '' else replicate (4 * (d - 1)) (CHR '' '') @ ''|-- '')
                  @ component b @ newline))
            (dependants_tree fuel subs (Suc d) (component b))
        else Some []) (includes_list b)) \<noteq> None" if "b \<in> set subs" for b
    using assms that by (intro seq_opt_not_None) auto
  show ?thesis
    unfolding dependants_tree.simps
    by (rule seq_opt_not_None) (use inner in auto)
qed

lemma dependants_tree_total:
  assumes rk: "\<forall>b\<in>set subs. \<forall>i\<in>set (includes_list b). rk (component b) < rk i"
  shows "rk name < fuel \<Longrightarrow> dependants_tree fuel subs d name \<noteq> None"
proof (induction fuel arbitrary: d name)
  case 0
  then show ?case by simp
next
  case (Suc fuel)
  show ?case
  proof (rule dependants_tree_step, intro ballI impI)
    fix b i
    assume b: "b \<in> set subs" and i: "i \<in> set (includes_list b)" and "i = name"
    with rk have "rk (component b) < rk name" by blast
    with Suc.prems have "rk (component b) < fuel" by simp
    then show "dependants_tree fuel subs (Suc d) (component b) \<noteq> None"
      by (rule Suc.IH)
  qed
qed

text \<open>
  C8.  \<^verbatim>\<open>required_by\<close>, called at recursion level \<open>d\<close>, appends to the list it is given
  exactly the lines of the depth-first walk over the submanifests of the MoM: one line for
  every submanifest that includes the bundle, followed by the lines of the recursive call
  on that dependant.  A line found at depth 1 is \<open>''  * ''\<close> and the name of the dependant, a
  line found at depth \<open>d > 1\<close> is \<open>4 * (d - 1)\<close> blanks, \<open>''|-- ''\<close> and the name.  When the
  includes of the submanifests have no cycle, the recursion comes back.
\<close>

theorem required_by_depth_first:
  "required_by fuel m (int d) name acc =
     map_option ((@) acc) (dependants_tree fuel (submanifests m) (Suc d) name)
   \<and> ((\<forall>b\<in>set (submanifests m). \<forall>i\<in>set (includes_list b). rk (component b) < rk i) \<longrightarrow>
      rk name < fuel \<longrightarrow>
      (\<exists>lines. required_by fuel m (int d) name acc = Some (acc @ lines)))"
proof (intro conjI impI)
  show eq: "required_by fuel m (int d) name acc =
     map_option ((@) acc) (dependants_tree fuel (submanifests m) (Suc d) name)"
    by (rule required_by_tree)
  assume rk: "\<forall>b\<in>set (submanifests m). \<forall>i\<in>set (includes_list b). rk (component b) < rk i"
    and fuel: "rk name < fuel"
  from dependants_tree_total [OF rk fuel]
  obtain lines where "dependants_tree fuel (submanifests m) (Suc d) name = Some lines"
    by blast
  with eq show "\<exists>lines. required_by fuel m (int d) name acc = Some (acc @ lines)"
    by simp
qed

theorem required_by_depth_first_witness:
  "example_rank ''editors'' < example_rank ''os-core''
   \<and> example_rank ''dev'' < example_rank ''editors''
   \<and> example_rank ''dev'' < example_rank ''os-core''
   \<and> example_rank ''os-core'' < 3
   \<and> required_by 3 example_loaded_mom (int 0) ''os-core'' [] =
       Some [''  * editors'' @ newline, ''    |-- dev'' @ newline, ''  * dev'' @ newline]
   \<and> dependants_tree 3 (submanifests example_loaded_mom) (Suc 0) ''os-core'' =
       Some [''  * editors'' @ newline, ''    |-- dev'' @ newline, ''  * dev'' @ newline]"
  using required_by_depth_first [of 3 example_loaded_mom 0 "''os-core''" "[]" example_rank]
  by (simp add: example_loaded_mom_def example_editors_def example_dev_def example_rank_def
      eval_nat_numeral bundle_str_def pad_def Let_def)

section \<open>Properties of \<^verbatim>\<open>add_subscriptions\<close>\<close>


lemma flags_distinct [simp]:
  "add_sub_ERR AND add_sub_NEW = 0" "add_sub_ERR AND add_sub_BADNAME = 0"
  "add_sub_NEW AND add_sub_ERR = 0" "add_sub_NEW AND add_sub_BADNAME = 0"
  "add_sub_BADNAME AND add_sub_ERR = 0" "add_sub_BADNAME AND add_sub_NEW = 0"
  "add_sub_ERR \<noteq> 0" "add_sub_NEW \<noteq> 0" "add_sub_BADNAME \<noteq> 0"
  by (simp_all add: add_sub_ERR_def add_sub_NEW_def add_sub_BADNAME_def)

lemma emit_frame [simp]:
  "bundles_dir (emit l s w) = bundles_dir w" "tracking_dir (emit l s w) = tracking_dir w"
  "outside (emit l s w) = outside w"
  by (simp_all add: emit_def)

lemma stat_from_bundles_dir_world:
  "bundles_dir w1 = bundles_dir w \<Longrightarrow> outside w1 = outside w \<Longrightarrow>
     stat_from_bundles_dir w1 n cs = stat_from_bundles_dir w n cs"
  by (induction cs) simp_all

lemma is_installed_emit [simp]: "is_installed_bundle (emit l s w) b = is_installed_bundle w b"
  by (simp add: is_installed_bundle_def stat_from_bundles_dir_world [of "emit l s w" w])

lemma is_installed_world:
  "bundles_dir w1 = bundles_dir w \<and> outside w1 = outside w \<Longrightarrow>
     is_installed_bundle w1 b = is_installed_bundle w b"
  by (simp add: is_installed_bundle_def stat_from_bundles_dir_world [of w1 w])

lemma search_bundle_in_manifest_mem:
  "search_bundle_in_manifest m b = Some fl \<Longrightarrow> fl \<in> set (manifests m)"
  by (auto simp: search_bundle_in_manifest_def find_Some_iff)





lemma appended_only_world:
  "bundles_dir w1 = bundles_dir w \<and> outside w1 = outside w \<Longrightarrow>
     appended_only w1 m fa s1 s2 = appended_only w m fa s1 s2"
  using is_installed_world [of w1 w] by (simp add: appended_only_def)

lemma appended_only_emit [simp]:
  "appended_only (emit l s w) m fa s1 s2 = appended_only w m fa s1 s2"
  by (rule appended_only_world) simp



























section \<open>Properties of \<^verbatim>\<open>remove_bundles\<close>\<close>

lemma unload_tracked_bundle_code:
  "fst (unload_tracked_bundle b subs) = SWUPD_OK \<or> fst (unload_tracked_bundle b subs) = SWUPD_BUNDLE_NOT_TRACKED"
  by (induction subs) (auto split: prod.splits)

lemma load_bundle_manifest_code:
  "load_bundle_manifest e b subs v = (ret, bm) \<Longrightarrow> (ret = SWUPD_OK) = (bm \<noteq> None)"
  by (auto simp: load_bundle_manifest_def split: option.splits list.splits)

lemma trace_emit [simp]: "trace (emit l s w) = trace w @ [Msg l s]"
  by (simp add: emit_def)

lemma trace_record_event [simp]: "trace (record_event ev w) = trace w @ [ev]"
  by (simp add: record_event_def)

lemma frame_record_event [simp]:
  "bundles_dir (record_event ev w) = bundles_dir w"
  "tracking_dir (record_event ev w) = tracking_dir w"
  by (simp_all add: record_event_def)

lemma trace_call [simp]: "trace (snd (call ev f w)) = trace w @ [ev]"
  by (simp add: call_def split: prod.splits)

lemma trace_remove_tracked [simp]: "trace (remove_tracked s b w) = trace w"
  by (simp add: remove_tracked_def Let_def)

lemma trace_fold_emit: "trace (fold (emit l) xs w) = trace w @ map (Msg l) xs"
  by (induction xs arbitrary: w) simp_all

lemma trace_required_by_report:
  "\<exists>t. trace (required_by_report r w) = trace w @ t"
  by (simp add: required_by_report_def trace_fold_emit)

lemma remove_bundle_files_failed:
  "remove_bundle_files e cv b subs m w = (ret, failed, subs', w') \<Longrightarrow>
     failed = (if ret \<noteq> SWUPD_OK then 1 else 0)"
  using load_bundle_manifest_code [of e b subs cv]
  unfolding remove_bundle_files_def Let_def
  by (auto split: if_splits option.splits prod.splits)

lemma remove_bundle_files_trace:
  "remove_bundle_files e cv b subs m w = (ret, failed, subs', w') \<Longrightarrow>
     \<exists>t. trace w' = trace w @ t"
  unfolding remove_bundle_files_def Let_def
  by (auto split: if_splits option.splits prod.splits)

text \<open>The ways through the middle piece and through the whole turn.\<close>

lemma remove_bundle_tracked_cases:
  assumes "remove_bundle_tracked fuel e cv b m subs w = Some res"
  obtains (early) c subs2 w0 where "c \<noteq> SWUPD_OK" "res = (c, 1, subs2, w0)"
      "\<exists>t. trace w0 = trace w @ t"
  | (files) subs3 m' where "res = remove_bundle_files e cv b subs3 m' w"
proof -
  obtain ret subs2 where u: "unload_tracked_bundle b (read_subscriptions e w subs) = (ret, subs2)"
    by fastforce
  show ?thesis
  proof (cases "ret \<noteq> SWUPD_OK")
    case True
    with assms u have "res = (ret, 1, subs2, w)"
      by (simp add: remove_bundle_tracked_def)
    with True show ?thesis by (intro early [of ret subs2 w]) simp_all
  next
    case False
    note ok = this
    let ?subs3 = "set_subscription_versions e m subs2"
    let ?loaded = "recurse_manifest e m ?subs3 None False"
    show ?thesis
    proof (cases "?loaded = []")
      case True
      with assms u ok
      have "res = (SWUPD_RECURSE_MANIFEST, 1, ?subs3,
                emit Error (''Cannot load MoM sub-manifests'' @ newline) w)"
        by (simp add: remove_bundle_tracked_def Let_def)
      then show ?thesis
        by (intro early [of SWUPD_RECURSE_MANIFEST ?subs3
              "emit Error (''Cannot load MoM sub-manifests'' @ newline) w"]) simp_all
    next
      case False
      note loaded = this
      show ?thesis
      proof (cases "required_by fuel (m\<lparr>submanifests := ?loaded\<rparr>) 0 b []")
        case None
        with assms u ok loaded show ?thesis
          by (simp add: remove_bundle_tracked_def Let_def)
      next
        case (Some reqd_by)
        show ?thesis
        proof (cases "reqd_by = []")
          case True
          with assms u ok loaded Some
          have "res = remove_bundle_files e cv b ?subs3
                       (m\<lparr>submanifests := ?loaded,
                          mom_files := consolidate_files e (files_from_bundles e ?loaded)\<rparr>) w"
            by (simp add: remove_bundle_tracked_def Let_def)
          then show ?thesis by (rule files)
        next
          case False
          with assms u ok loaded Some
          have "res = (SWUPD_REQUIRED_BUNDLE_ERROR, 1, ?subs3, required_by_report reqd_by w)"
            by (simp add: remove_bundle_tracked_def Let_def)
          then show ?thesis
            by (intro early [of SWUPD_REQUIRED_BUNDLE_ERROR ?subs3
                  "required_by_report reqd_by w"])
               (simp_all add: trace_required_by_report)
        qed
      qed
    qed
  qed
qed

lemma remove_bundle_cases:
  assumes "remove_bundle fuel e cv several b subs w = Some res"
  obtains (early) c subs2 w0 where "c \<noteq> SWUPD_OK" "res = (c, 1, subs2, w0)"
      "\<exists>t. trace w0 = trace w @ t"
  | (files) subs3 m' w1 where "res = remove_bundle_files e cv b subs3 m' w1"
      "\<exists>t. trace w1 = trace w @ t"
proof -
  let ?w1 = "if several then emit Info (''Removing bundle: '' @ b @ newline) w else w"
  have w1: "\<exists>t. trace ?w1 = trace w @ t" by simp
  show ?thesis
  proof (cases "b = ''os-core''")
    case True
    with assms show ?thesis
      by (intro early [of SWUPD_REQUIRED_BUNDLE_ERROR subs
            "emit Warn (''Bundle '' @ dquote @ ''os-core'' @ dquote
               @ '' not allowed to be removed'' @ newline) w"])
         (simp_all add: remove_bundle_def)
  next
    case False
    note b = this
    show ?thesis
    proof (cases "is_installed_bundle w b")
      case False
      with assms b show ?thesis
        by (intro early [of SWUPD_BUNDLE_NOT_TRACKED subs
              "emit Warn (''Bundle '' @ dquote @ b @ dquote
                 @ '' is not installed, skipping it...'' @ newline) w"])
           (simp_all add: remove_bundle_def)
    next
      case True
      note inst = this
      show ?thesis
      proof (cases "load_mom e cv False (mix_exists e)")
        case None
        with assms b inst
        have "res = (SWUPD_COULDNT_LOAD_MOM, 1, subs,
              emit Error (''Unable to download/verify '' @ printf_d cv
                          @ '' Manifest.MoM'' @ newline) ?w1)"
          by (simp add: remove_bundle_def Let_def)
        then show ?thesis
          by (intro early [of SWUPD_COULDNT_LOAD_MOM subs
                "emit Error (''Unable to download/verify '' @ printf_d cv
                          @ '' Manifest.MoM'' @ newline) ?w1"]) auto
      next
        case (Some m)
        note m = this
        show ?thesis
        proof (cases "search_bundle_in_manifest m b")
          case None
          with assms b inst m
          have "res = (SWUPD_INVALID_BUNDLE, 1, subs,
                   emit Error (''Bundle name is invalid, aborting removal'' @ newline) ?w1)"
            by (simp add: remove_bundle_def Let_def)
          then show ?thesis
            by (intro early [of SWUPD_INVALID_BUNDLE subs
                  "emit Error (''Bundle name is invalid, aborting removal'' @ newline) ?w1"])
               auto
        next
          case (Some fl)
          with assms b inst m
          have "remove_bundle_tracked fuel e cv b m subs ?w1 = Some res"
            by (simp add: remove_bundle_def Let_def)
          then show ?thesis
          proof (cases rule: remove_bundle_tracked_cases)
            case (early c subs2 w0)
            from early(3) w1 have "\<exists>t. trace w0 = trace w @ t" by (metis append.assoc)
            with early(1,2) show ?thesis by (intro that(1) [of c subs2 w0])
          next
            case (files subs3 m')
            with w1 show ?thesis by (intro that(2) [of subs3 m' ?w1])
          qed
        qed
      qed
    qed
  qed
qed

lemma remove_bundle_failed:
  assumes "remove_bundle fuel e cv several b subs w = Some (ret, failed, subs', w')"
  shows "failed = (if ret \<noteq> SWUPD_OK then 1 else 0)"
  using assms
proof (cases rule: remove_bundle_cases)
  case (early c subs2 w0)
  then show ?thesis by simp
next
  case (files subs3 m' w1)
  from remove_bundle_files_failed [OF files(1) [symmetric]] show ?thesis .
qed

lemma remove_bundle_trace:
  assumes "remove_bundle fuel e cv several b subs w = Some (ret, failed, subs', w')"
  shows "\<exists>t. trace w' = trace w @ t"
  using assms
proof (cases rule: remove_bundle_cases)
  case (early c subs2 w0)
  then show ?thesis by simp
next
  case (files subs3 m' w1)
  from remove_bundle_files_trace [OF files(1) [symmetric]] files(2) show ?thesis
    by (metis append.assoc)
qed

lemma quadruple_exists [simp]: "\<exists>a b c d. x = (a, b, c, d)"
  by (cases x) auto

lemma remove_bundle_tracked_returns:
  assumes rk: "\<forall>m s. \<forall>b\<in>set (recurse_manifest e m s None False).
                 \<forall>i\<in>set (includes_list b). rk (component b) < rk i"
    and fuel: "rk b < fuel"
  shows "remove_bundle_tracked fuel e cv b m subs w \<noteq> None"
proof -
  obtain ret subs2 where u: "unload_tracked_bundle b (read_subscriptions e w subs) = (ret, subs2)"
    by fastforce
  let ?subs3 = "set_subscription_versions e m subs2"
  let ?loaded = "recurse_manifest e m ?subs3 None False"
  from rk have "\<forall>x\<in>set ?loaded. \<forall>i\<in>set (includes_list x). rk (component x) < rk i"
    by blast
  from dependants_tree_total [OF this fuel]
  have "required_by fuel (m\<lparr>submanifests := ?loaded\<rparr>) 0 b [] \<noteq> None"
    using required_by_tree [of fuel "m\<lparr>submanifests := ?loaded\<rparr>" 0 b "[]"] by simp
  then obtain r where "required_by fuel (m\<lparr>submanifests := ?loaded\<rparr>) 0 b [] = Some r"
    by blast
  with u show ?thesis
    by (simp add: remove_bundle_tracked_def Let_def)
qed

lemma remove_bundle_returns:
  assumes rk: "\<forall>m s. \<forall>b\<in>set (recurse_manifest e m s None False).
                 \<forall>i\<in>set (includes_list b). rk (component b) < rk i"
    and fuel: "rk b < fuel"
  shows "remove_bundle fuel e cv several b subs w \<noteq> None"
  using remove_bundle_tracked_returns [OF rk fuel]
  by (simp add: remove_bundle_def Let_def split: option.splits)

lemma remove_bundle_os_core:
  "remove_bundle fuel e cv several ''os-core'' subs w =
     Some (SWUPD_REQUIRED_BUNDLE_ERROR, 1, subs,
       emit Warn (''Bundle '' @ dquote @ ''os-core'' @ dquote @ '' not allowed to be removed''
                  @ newline) w)"
  by (simp add: remove_bundle_def)

lemma last_failure_Cons:
  "last_failure (c # cs) =
     (if filter (\<lambda>c. c \<noteq> SWUPD_OK) cs = [] then (if c \<noteq> SWUPD_OK then c else SWUPD_OK)
      else last_failure cs)"
  by (auto simp: last_failure_def split: list.splits)

lemma remove_bundles_loop_codes:
  "remove_bundles_loop fuel e cv bundles rc bad t subs w = Some (rc', bad', t', subs', w') \<Longrightarrow>
   \<exists>codes. remove_bundles_codes fuel e cv bundles t subs w = Some codes
      \<and> length codes = length bundles
      \<and> t' = t + int (length bundles)
      \<and> bad' = bad + int (length (filter (\<lambda>c. c \<noteq> SWUPD_OK) codes))
      \<and> rc' = (if filter (\<lambda>c. c \<noteq> SWUPD_OK) codes = [] then rc else last_failure codes)
      \<and> (\<exists>tr. trace w' = trace w @ tr)"
proof (induction bundles arbitrary: rc bad t subs w)
  case Nil
  then show ?case by simp
next
  case (Cons b bundles)
  from Cons.prems obtain ret failed subs1 w1 where
    step: "remove_bundle fuel e cv (bundles \<noteq> [] \<or> t > 0) b subs w = Some (ret, failed, subs1, w1)"
    and rest: "remove_bundles_loop fuel e cv bundles (if ret \<noteq> SWUPD_OK then ret else rc)
       (bad + failed) (t + 1) subs1
       (record_event (Telemetry (ret \<noteq> SWUPD_OK) (Some b) cv ret) w1) = Some (rc', bad', t', subs', w')"
    by (auto split: option.splits)
  from Cons.IH [OF rest] obtain codes tr where
    codes: "remove_bundles_codes fuel e cv bundles (t + 1) subs1
       (record_event (Telemetry (ret \<noteq> SWUPD_OK) (Some b) cv ret) w1) = Some codes"
    and len: "length codes = length bundles"
    and t': "t' = t + 1 + int (length bundles)"
    and bad': "bad' = bad + failed + int (length (filter (\<lambda>c. c \<noteq> SWUPD_OK) codes))"
    and rc': "rc' = (if filter (\<lambda>c. c \<noteq> SWUPD_OK) codes = []
                    then (if ret \<noteq> SWUPD_OK then ret else rc) else last_failure codes)"
    and tr: "trace w' = trace (record_event (Telemetry (ret \<noteq> SWUPD_OK) (Some b) cv ret) w1) @ tr"
    by blast
  note failed = remove_bundle_failed [OF step]
  from remove_bundle_trace [OF step] obtain t1 where t1: "trace w1 = trace w @ t1" by blast
  have "remove_bundles_codes fuel e cv (b # bundles) t subs w = Some (ret # codes)"
    using step codes by simp
  moreover have "length (ret # codes) = length (b # bundles)" using len by simp
  moreover have "t' = t + int (length (b # bundles))" using t' by simp
  moreover have "bad' = bad + int (length (filter (\<lambda>c. c \<noteq> SWUPD_OK) (ret # codes)))"
    using bad' failed by simp
  moreover have "rc' = (if filter (\<lambda>c. c \<noteq> SWUPD_OK) (ret # codes) = [] then rc
                        else last_failure (ret # codes))"
    using rc' by (simp add: last_failure_Cons)
  moreover have "\<exists>tr. trace w' = trace w @ tr" using tr t1 by simp
  ultimately show ?case by blast
qed

lemma remove_bundles_loop_returns:
  assumes rk: "\<forall>m s. \<forall>b\<in>set (recurse_manifest e m s None False).
                 \<forall>i\<in>set (includes_list b). rk (component b) < rk i"
  shows "\<forall>b\<in>set bundles. rk b < fuel \<Longrightarrow>
     remove_bundles_loop fuel e cv bundles rc bad t subs w \<noteq> None"
proof (induction bundles arbitrary: rc bad t subs w)
  case Nil
  then show ?case by simp
next
  case (Cons b bundles)
  from Cons.prems have "rk b < fuel" by simp
  from remove_bundle_returns [OF rk this]
  obtain r where "remove_bundle fuel e cv (bundles \<noteq> [] \<or> t > 0) b subs w = Some r"
    by blast
  moreover from Cons have "remove_bundles_loop fuel e cv bundles rc' bad' t' subs' w' \<noteq> None"
    for rc' bad' t' subs' w' by simp
  ultimately show ?case by (auto split: prod.splits)
qed

lemma last_failure_not_ok:
  "filter (\<lambda>c. c \<noteq> SWUPD_OK) codes \<noteq> [] \<Longrightarrow> last_failure codes \<noteq> SWUPD_OK"
proof -
  assume ne: "filter (\<lambda>c. c \<noteq> SWUPD_OK) codes \<noteq> []"
  then have "rev (filter (\<lambda>c. c \<noteq> SWUPD_OK) codes) \<noteq> []" by simp
  then obtain c cs where r: "rev (filter (\<lambda>c. c \<noteq> SWUPD_OK) codes) = c # cs"
    by (cases "rev (filter (\<lambda>c. c \<noteq> SWUPD_OK) codes)") auto
  then have "c \<in> set (rev (filter (\<lambda>c. c \<noteq> SWUPD_OK) codes))" by simp
  then have "c \<noteq> SWUPD_OK" by simp
  with r show ?thesis by (simp add: last_failure_def)
qed

lemma last_failure_none:
  "filter (\<lambda>c. c \<noteq> SWUPD_OK) codes = [] \<Longrightarrow> last_failure codes = SWUPD_OK"
  by (simp add: last_failure_def)

lemma remove_bundles_loop_keeps_failure:
  assumes "remove_bundles_loop fuel e cv bundles rc bad t subs w = Some (rc', bad', t', subs', w')"
    and "rc \<noteq> SWUPD_OK"
  shows "rc' \<noteq> SWUPD_OK"
proof -
  from remove_bundles_loop_codes [OF assms(1)] obtain codes where
    rc': "rc' = (if filter (\<lambda>c. c \<noteq> SWUPD_OK) codes = [] then rc else last_failure codes)"
    by blast
  show ?thesis
  proof (cases "filter (\<lambda>c. c \<noteq> SWUPD_OK) codes = []")
    case True
    with rc' assms(2) show ?thesis by simp
  next
    case False
    from last_failure_not_ok [OF False] rc' False show ?thesis by simp
  qed
qed

text \<open>
  C1 (as amended).  When the updater is initialised and the current version is known,
  \<^verbatim>\<open>remove_bundles\<close> gives every bundle of the list its turn, whatever happened to the
  bundles before it; the exit code is the \<^emph>\<open>last\<close> code of a turn that is not
  \<^verbatim>\<open>SWUPD_OK\<close> (\<^verbatim>\<open>SWUPD_OK\<close> when there is none); and when at least one bundle failed the
  last line written is \<open>Failed to remove N of M bundles\<close>, \<open>N\<close> the number of failed
  bundles and \<open>M\<close> the number of bundles.  The command returns when the includes of the
  loaded submanifests have no cycle.
\<close>

theorem remove_bundles_reports_last_failure:
  "(swupd_init e = SWUPD_OK \<longrightarrow> 0 \<le> get_current_version e \<longrightarrow>
      remove_bundles fuel e bundles w = Some (code, w') \<longrightarrow>
      (\<exists>codes. remove_bundles_codes fuel e (get_current_version e) bundles 0 [] w = Some codes
         \<and> length codes = length bundles
         \<and> code = last_failure codes
         \<and> ((\<exists>c\<in>set codes. c \<noteq> SWUPD_OK) \<longrightarrow>
              last (trace w') =
                Msg Print (''Failed to remove ''
                  @ printf_d (int (length (filter (\<lambda>c. c \<noteq> SWUPD_OK) codes)))
                  @ '' of '' @ printf_d (int (length bundles)) @ '' bundles'' @ newline))))
   \<and> (swupd_init e = SWUPD_OK \<longrightarrow> 0 \<le> get_current_version e \<longrightarrow>
        (\<forall>m s. \<forall>b\<in>set (recurse_manifest e m s None False).
             \<forall>i\<in>set (includes_list b). rk (component b) < rk i) \<longrightarrow>
        (\<forall>b\<in>set bundles. rk b < fuel) \<longrightarrow>
        (\<exists>res. remove_bundles fuel e bundles w = Some res))"
proof (intro conjI impI)
  assume init: "swupd_init e = SWUPD_OK" and ver: "0 \<le> get_current_version e"
    and run: "remove_bundles fuel e bundles w = Some (code, w')"
  let ?cv = "get_current_version e"
  from run init ver obtain bad t subs wl where
    loop: "remove_bundles_loop fuel e ?cv bundles SWUPD_OK 0 0 [] w = Some (code, bad, t, subs, wl)"
    and w': "w' = (if bad > 0 then
                   emit Print (''Failed to remove '' @ printf_d bad @ '' of '' @ printf_d t
                               @ '' bundles'' @ newline) wl
                 else
                   emit Print (''Successfully removed '' @ printf_d t @ '' bundle''
                               @ (if t > 1 then ''s'' else '''') @ newline) wl)"
    by (auto simp: remove_bundles_def Let_def split: option.splits if_splits)
  from remove_bundles_loop_codes [OF loop] obtain codes where
    codes: "remove_bundles_codes fuel e ?cv bundles 0 [] w = Some codes"
    and len: "length codes = length bundles"
    and t: "t = int (length bundles)"
    and bad: "bad = int (length (filter (\<lambda>c. c \<noteq> SWUPD_OK) codes))"
    and code: "code = (if filter (\<lambda>c. c \<noteq> SWUPD_OK) codes = [] then SWUPD_OK
                       else last_failure codes)"
    by auto
  from code have code': "code = last_failure codes"
    by (simp add: last_failure_none)
  have msg: "last (trace w') =
                Msg Print (''Failed to remove ''
                  @ printf_d (int (length (filter (\<lambda>c. c \<noteq> SWUPD_OK) codes)))
                  @ '' of '' @ printf_d (int (length bundles)) @ '' bundles'' @ newline)"
    if "\<exists>c\<in>set codes. c \<noteq> SWUPD_OK"
  proof -
    from that have "filter (\<lambda>c. c \<noteq> SWUPD_OK) codes \<noteq> []"
      by (simp add: filter_empty_conv)
    with bad have "bad > 0" by simp
    with w' bad t show ?thesis by simp
  qed
  from codes len code' msg
  show "\<exists>codes. remove_bundles_codes fuel e ?cv bundles 0 [] w = Some codes
         \<and> length codes = length bundles
         \<and> code = last_failure codes
         \<and> ((\<exists>c\<in>set codes. c \<noteq> SWUPD_OK) \<longrightarrow>
              last (trace w') =
                Msg Print (''Failed to remove ''
                  @ printf_d (int (length (filter (\<lambda>c. c \<noteq> SWUPD_OK) codes)))
                  @ '' of '' @ printf_d (int (length bundles)) @ '' bundles'' @ newline))"
    by blast
next
  assume init: "swupd_init e = SWUPD_OK" and ver: "0 \<le> get_current_version e"
    and rk: "\<forall>m s. \<forall>b\<in>set (recurse_manifest e m s None False).
             \<forall>i\<in>set (includes_list b). rk (component b) < rk i"
    and fuel: "\<forall>b\<in>set bundles. rk b < fuel"
  from remove_bundles_loop_returns [OF rk fuel]
  obtain r where "remove_bundles_loop fuel e (get_current_version e) bundles SWUPD_OK 0 0 [] w = Some r"
    by blast
  with init ver show "\<exists>res. remove_bundles fuel e bundles w = Some res"
    by (auto simp: remove_bundles_def Let_def split: prod.splits)
qed

lemma remove_bundles_loop_os_core:
  "remove_bundles_loop fuel e cv bundles rc bad t subs w = Some (rc', bad', t', subs', w') \<Longrightarrow>
   ''os-core'' \<in> set bundles \<Longrightarrow>
     rc' \<noteq> SWUPD_OK
     \<and> Msg Warn (''Bundle '' @ dquote @ ''os-core'' @ dquote @ '' not allowed to be removed''
                  @ newline) \<in> set (trace w')
     \<and> (last bundles = ''os-core'' \<longrightarrow> rc' = SWUPD_REQUIRED_BUNDLE_ERROR)"
proof (induction bundles arbitrary: rc bad t subs w)
  case Nil
  then show ?case by simp
next
  case (Cons b bundles)
  let ?msg = "Msg Warn (''Bundle '' @ dquote @ ''os-core'' @ dquote
                @ '' not allowed to be removed'' @ newline)"
  from Cons.prems(1) obtain ret failed subs1 w1 where
    step: "remove_bundle fuel e cv (bundles \<noteq> [] \<or> t > 0) b subs w = Some (ret, failed, subs1, w1)"
    and rest: "remove_bundles_loop fuel e cv bundles (if ret \<noteq> SWUPD_OK then ret else rc)
       (bad + failed) (t + 1) subs1
       (record_event (Telemetry (ret \<noteq> SWUPD_OK) (Some b) cv ret) w1) = Some (rc', bad', t', subs', w')"
    by (auto split: option.splits)
  show ?case
  proof (cases "''os-core'' \<in> set bundles")
    case True
    from Cons.IH [OF rest True] True show ?thesis by auto
  next
    case False
    with Cons.prems(2) have b: "b = ''os-core''" by simp
    from step b have ret: "ret = SWUPD_REQUIRED_BUNDLE_ERROR"
      and w1: "w1 = emit Warn (''Bundle '' @ dquote @ ''os-core'' @ dquote
                @ '' not allowed to be removed'' @ newline) w"
      by (simp_all add: remove_bundle_os_core)
    from remove_bundles_loop_codes [OF rest] obtain codes tr where
      rc': "rc' = (if filter (\<lambda>c. c \<noteq> SWUPD_OK) codes = []
                    then (if ret \<noteq> SWUPD_OK then ret else rc) else last_failure codes)"
      and len: "length codes = length bundles"
      and tr: "trace w' = trace (record_event (Telemetry (ret \<noteq> SWUPD_OK) (Some b) cv ret) w1) @ tr"
      by blast
    from rc' ret have 1: "rc' \<noteq> SWUPD_OK"
      using last_failure_not_ok [of codes] by (auto split: if_splits)
    from tr w1 have 2: "?msg \<in> set (trace w')" by simp
    have 3: "rc' = SWUPD_REQUIRED_BUNDLE_ERROR" if "last (b # bundles) = ''os-core''"
    proof -
      have "bundles = []"
      proof (rule ccontr)
        assume ne: "bundles \<noteq> []"
        with that have "last bundles = ''os-core''" by simp
        with ne have "''os-core'' \<in> set bundles" by (metis last_in_set)
        with False show False by simp
      qed
      with len have "codes = []" by simp
      with rc' ret show ?thesis by simp
    qed
    from 1 2 3 show ?thesis by blast
  qed
qed

lemma remove_bundles_codes_os_core:
  "remove_bundles_codes fuel e cv bundles t subs w = Some codes \<Longrightarrow>
   i < length bundles \<Longrightarrow> bundles ! i = ''os-core'' \<Longrightarrow>
     codes ! i = SWUPD_REQUIRED_BUNDLE_ERROR"
proof (induction bundles arbitrary: i t subs w codes)
  case Nil
  then show ?case by simp
next
  case (Cons b bundles)
  from Cons.prems(1) obtain ret failed subs1 w1 rest where
    step: "remove_bundle fuel e cv (bundles \<noteq> [] \<or> t > 0) b subs w = Some (ret, failed, subs1, w1)"
    and rest: "remove_bundles_codes fuel e cv bundles (t + 1) subs1
       (record_event (Telemetry (ret \<noteq> SWUPD_OK) (Some b) cv ret) w1) = Some rest"
    and codes: "codes = ret # rest"
    by (auto split: option.splits)
  show ?case
  proof (cases i)
    case 0
    with Cons.prems(3) have "b = ''os-core''" by simp
    with step have "ret = SWUPD_REQUIRED_BUNDLE_ERROR" by (simp add: remove_bundle_os_core)
    with codes 0 show ?thesis by simp
  next
    case (Suc j)
    with Cons.prems(2,3) have "j < length bundles" "bundles ! j = ''os-core''" by simp_all
    from Cons.IH [OF rest this] codes Suc show ?thesis by simp
  qed
qed

lemma last_failure_after:
  assumes "c \<noteq> SWUPD_OK" and "\<forall>x\<in>set post. x = SWUPD_OK \<or> x = c"
  shows "last_failure (pre @ c # post) = c"
proof (cases "rev (filter (\<lambda>c. c \<noteq> SWUPD_OK) post)")
  case Nil
  with assms(1) show ?thesis by (simp add: last_failure_def)
next
  case (Cons x xs)
  then have "x \<in> set (rev (filter (\<lambda>c. c \<noteq> SWUPD_OK) post))" by simp
  with assms(2) have "x = c" by auto
  with Cons show ?thesis by (simp add: last_failure_def)
qed

text \<open>
  C4 (as amended).  The turn of the loop for \<open>os-core\<close> ends with
  \<^verbatim>\<open>SWUPD_REQUIRED_BUNDLE_ERROR\<close>, writes \<open>Bundle "os-core" not allowed to be removed\<close> and
  changes nothing else: no subscription, no directory, no helper called.  When the
  updater is initialised and the current version is known, a command whose list contains
  \<open>os-core\<close> writes the message and exits with a code that is not \<^verbatim>\<open>SWUPD_OK\<close>; every
  turn for \<open>os-core\<close> has the code \<^verbatim>\<open>SWUPD_REQUIRED_BUNDLE_ERROR\<close>, and that is the exit code
  of the command when no bundle after \<open>os-core\<close> in the list fails with another code; for
  \<open>os-core\<close> alone the only effects are the message, the telemetry record and the summary.
  The command returns when the includes of the loaded submanifests have no cycle.
\<close>

theorem remove_os_core_refused:
  "remove_bundle fuel e cv several ''os-core'' subs w =
     Some (SWUPD_REQUIRED_BUNDLE_ERROR, 1, subs,
       emit Warn (''Bundle '' @ dquote @ ''os-core'' @ dquote @ '' not allowed to be removed''
                  @ newline) w)
   \<and> (swupd_init e = SWUPD_OK \<longrightarrow> 0 \<le> get_current_version e \<longrightarrow>
        ''os-core'' \<in> set bundles \<longrightarrow> remove_bundles fuel e bundles w = Some (code, w') \<longrightarrow>
          code \<noteq> SWUPD_OK
        \<and> Msg Warn (''Bundle '' @ dquote @ ''os-core'' @ dquote @ '' not allowed to be removed''
                     @ newline) \<in> set (trace w')
        \<and> (\<exists>codes. remove_bundles_codes fuel e (get_current_version e) bundles 0 [] w
                      = Some codes
              \<and> length codes = length bundles
              \<and> (\<forall>i<length bundles. bundles ! i = ''os-core'' \<longrightarrow>
                    codes ! i = SWUPD_REQUIRED_BUNDLE_ERROR)
              \<and> (\<forall>pre post. bundles = pre @ ''os-core'' # post \<longrightarrow>
                    (\<forall>c\<in>set (drop (Suc (length pre)) codes).
                        c = SWUPD_OK \<or> c = SWUPD_REQUIRED_BUNDLE_ERROR) \<longrightarrow>
                    code = SWUPD_REQUIRED_BUNDLE_ERROR)))
   \<and> (swupd_init e = SWUPD_OK \<longrightarrow> 0 \<le> get_current_version e \<longrightarrow>
        (\<forall>m s. \<forall>b\<in>set (recurse_manifest e m s None False).
             \<forall>i\<in>set (includes_list b). rk (component b) < rk i) \<longrightarrow>
        (\<forall>b\<in>set bundles. rk b < fuel) \<longrightarrow>
        (\<exists>res. remove_bundles fuel e bundles w = Some res))
   \<and> (swupd_init e = SWUPD_OK \<longrightarrow> 0 \<le> get_current_version e \<longrightarrow>
        remove_bundles fuel e [''os-core''] w =
          Some (SWUPD_REQUIRED_BUNDLE_ERROR,
            w\<lparr>trace := trace w @
               [Msg Warn (''Bundle '' @ dquote @ ''os-core'' @ dquote
                          @ '' not allowed to be removed'' @ newline),
                Telemetry True (Some ''os-core'') (get_current_version e)
                  SWUPD_REQUIRED_BUNDLE_ERROR,
                Msg Print (''Failed to remove 1 of 1 bundles'' @ newline)]\<rparr>))"
proof (intro conjI impI)
  show "remove_bundle fuel e cv several ''os-core'' subs w =
     Some (SWUPD_REQUIRED_BUNDLE_ERROR, 1, subs,
       emit Warn (''Bundle '' @ dquote @ ''os-core'' @ dquote @ '' not allowed to be removed''
                  @ newline) w)"
    by (rule remove_bundle_os_core)
next
  assume init: "swupd_init e = SWUPD_OK" and ver: "0 \<le> get_current_version e"
  show "remove_bundles fuel e [''os-core''] w =
          Some (SWUPD_REQUIRED_BUNDLE_ERROR,
            w\<lparr>trace := trace w @
               [Msg Warn (''Bundle '' @ dquote @ ''os-core'' @ dquote
                          @ '' not allowed to be removed'' @ newline),
                Telemetry True (Some ''os-core'') (get_current_version e)
                  SWUPD_REQUIRED_BUNDLE_ERROR,
                Msg Print (''Failed to remove 1 of 1 bundles'' @ newline)]\<rparr>)"
    using init ver
    by (simp add: remove_bundles_def Let_def remove_bundle_os_core emit_def record_event_def
        printf_d_def digit_char_def)
next
  assume init: "swupd_init e = SWUPD_OK" and ver: "0 \<le> get_current_version e"
    and rk: "\<forall>m s. \<forall>b\<in>set (recurse_manifest e m s None False).
             \<forall>i\<in>set (includes_list b). rk (component b) < rk i"
    and fuel: "\<forall>b\<in>set bundles. rk b < fuel"
  from remove_bundles_loop_returns [OF rk fuel]
  obtain r where "remove_bundles_loop fuel e (get_current_version e) bundles SWUPD_OK 0 0 [] w = Some r"
    by blast
  with init ver show "\<exists>res. remove_bundles fuel e bundles w = Some res"
    by (auto simp: remove_bundles_def Let_def split: prod.splits)
next
  assume init: "swupd_init e = SWUPD_OK" and ver: "0 \<le> get_current_version e"
    and os: "''os-core'' \<in> set bundles"
    and run: "remove_bundles fuel e bundles w = Some (code, w')"
  let ?msg = "Msg Warn (''Bundle '' @ dquote @ ''os-core'' @ dquote
                @ '' not allowed to be removed'' @ newline)"
  let ?cv = "get_current_version e"
  from run init ver obtain bad t subs wl where
    loop: "remove_bundles_loop fuel e ?cv bundles SWUPD_OK 0 0 [] w
             = Some (code, bad, t, subs, wl)"
    and w': "trace w' = trace wl @ [last (trace w')]"
    by (auto simp: remove_bundles_def Let_def split: option.splits if_splits)
  note l = remove_bundles_loop_os_core [OF loop os]
  from l show "code \<noteq> SWUPD_OK" by simp
  from l w' show "?msg \<in> set (trace w')" by (metis Un_iff set_append)
  from remove_bundles_loop_codes [OF loop] obtain codes where
    codes: "remove_bundles_codes fuel e ?cv bundles 0 [] w = Some codes"
    and len: "length codes = length bundles"
    and code: "code = (if filter (\<lambda>c. c \<noteq> SWUPD_OK) codes = [] then SWUPD_OK
                       else last_failure codes)"
    by auto
  from code have code': "code = last_failure codes"
    by (simp add: last_failure_none)
  have at: "\<forall>i<length bundles. bundles ! i = ''os-core'' \<longrightarrow>
                    codes ! i = SWUPD_REQUIRED_BUNDLE_ERROR"
    using remove_bundles_codes_os_core [OF codes] by blast
  have exit: "code = SWUPD_REQUIRED_BUNDLE_ERROR"
    if split: "bundles = pre @ ''os-core'' # post"
      and later: "\<forall>c\<in>set (drop (Suc (length pre)) codes).
                    c = SWUPD_OK \<or> c = SWUPD_REQUIRED_BUNDLE_ERROR"
    for pre post
  proof -
    from split len have n: "length pre < length codes" by simp
    from split have "bundles ! length pre = ''os-core''" by simp
    with at split have c: "codes ! length pre = SWUPD_REQUIRED_BUNDLE_ERROR" by simp
    from n have "codes = take (length pre) codes @ codes ! length pre
                   # drop (Suc (length pre)) codes"
      by (simp add: id_take_nth_drop)
    with c have "codes = take (length pre) codes @ SWUPD_REQUIRED_BUNDLE_ERROR
                   # drop (Suc (length pre)) codes"
      by simp
    then have "last_failure codes = SWUPD_REQUIRED_BUNDLE_ERROR"
      using last_failure_after [of SWUPD_REQUIRED_BUNDLE_ERROR
          "drop (Suc (length pre)) codes" "take (length pre) codes"] later
      by simp
    with code' show ?thesis by simp
  qed
  from codes len at exit
  show "\<exists>codes. remove_bundles_codes fuel e ?cv bundles 0 [] w = Some codes
              \<and> length codes = length bundles
              \<and> (\<forall>i<length bundles. bundles ! i = ''os-core'' \<longrightarrow>
                    codes ! i = SWUPD_REQUIRED_BUNDLE_ERROR)
              \<and> (\<forall>pre post. bundles = pre @ ''os-core'' # post \<longrightarrow>
                    (\<forall>c\<in>set (drop (Suc (length pre)) codes).
                        c = SWUPD_OK \<or> c = SWUPD_REQUIRED_BUNDLE_ERROR) \<longrightarrow>
                    code = SWUPD_REQUIRED_BUNDLE_ERROR)"
    by blast
qed

lemma example_remove_rank_ok:
  "\<forall>m s. \<forall>b\<in>set (recurse_manifest example_env m s None False).
     \<forall>i\<in>set (includes_list b). example_remove_rank (component b) < example_remove_rank i"
  by (auto simp: example_env_def example_manifest_def example_remove_rank_def split: if_splits)

theorem remove_bundles_reports_last_failure_witness:
  "swupd_init example_env = SWUPD_OK \<and> 0 \<le> get_current_version example_env
   \<and> map_option fst
        (remove_bundles 4 example_env [''dev'', ''os-core'', ''editors''] example_installed) =
       Some SWUPD_REQUIRED_BUNDLE_ERROR
   \<and> remove_bundles_codes 4 example_env 10 [''dev'', ''os-core'', ''editors''] 0 []
        example_installed = Some [SWUPD_OK, SWUPD_REQUIRED_BUNDLE_ERROR, SWUPD_OK]
   \<and> last_failure [SWUPD_OK, SWUPD_REQUIRED_BUNDLE_ERROR, SWUPD_OK] = SWUPD_REQUIRED_BUNDLE_ERROR
   \<and> map_option (\<lambda>r. last (trace (snd r)))
        (remove_bundles 4 example_env [''dev'', ''os-core'', ''editors''] example_installed) =
       Some (Msg Print (''Failed to remove 1 of 3 bundles'' @ newline))"
proof -
  let ?bundles = "[''dev'', ''os-core'', ''editors'']"
  have init: "swupd_init example_env = SWUPD_OK" by (simp add: example_env_def)
  have ver: "0 \<le> get_current_version example_env" by (simp add: example_env_def)
  have cv: "get_current_version example_env = 10" by (simp add: example_env_def)
  have small: "\<forall>b\<in>set ?bundles. example_remove_rank b < 4"
    by (simp add: example_remove_rank_def)
  note inst = remove_bundles_reports_last_failure [where e = example_env and fuel = 4
      and bundles = ?bundles and w = example_installed and rk = example_remove_rank]
  from inst [THEN conjunct2, THEN mp, OF init, THEN mp, OF ver, THEN mp,
      OF example_remove_rank_ok, THEN mp, OF small]
  obtain code w' where run: "remove_bundles 4 example_env ?bundles example_installed = Some (code, w')"
    by fastforce
  have codes: "remove_bundles_codes 4 example_env 10 ?bundles 0 [] example_installed
      = Some [SWUPD_OK, SWUPD_REQUIRED_BUNDLE_ERROR, SWUPD_OK]"
    by code_simp
  have lf: "last_failure [SWUPD_OK, SWUPD_REQUIRED_BUNDLE_ERROR, SWUPD_OK]
      = SWUPD_REQUIRED_BUNDLE_ERROR"
    by code_simp
  from inst [where code = code and w' = w', THEN conjunct1, rule_format, OF init ver run]
    codes cv lf
  have code: "code = SWUPD_REQUIRED_BUNDLE_ERROR"
    and msg: "last (trace w') = Msg Print (''Failed to remove '' @ printf_d (int (Suc 0))
       @ '' of '' @ printf_d (int (length ?bundles)) @ '' bundles'' @ newline)"
    by auto
  have "printf_d (int (Suc 0)) = ''1''" "printf_d (int (length ?bundles)) = ''3''"
    by (simp_all add: printf_d_def digit_char_def)
  with msg have msg': "last (trace w') = Msg Print (''Failed to remove 1 of 3 bundles'' @ newline)"
    by simp
  from init ver run code codes lf msg' show ?thesis by simp
qed

theorem remove_bundles_reports_last_failure_counterexample:
  "map_option fst (remove_bundles 4 example_env [''os-core'', ''zzz''] example_installed) =
     Some SWUPD_BUNDLE_NOT_TRACKED
   \<and> remove_bundles_codes 4 example_env 10 [''os-core'', ''zzz''] 0 [] example_installed =
       Some [SWUPD_REQUIRED_BUNDLE_ERROR, SWUPD_BUNDLE_NOT_TRACKED]
   \<and> first_failure [SWUPD_REQUIRED_BUNDLE_ERROR, SWUPD_BUNDLE_NOT_TRACKED] =
       SWUPD_REQUIRED_BUNDLE_ERROR
   \<and> SWUPD_REQUIRED_BUNDLE_ERROR \<noteq> SWUPD_BUNDLE_NOT_TRACKED"
  by code_simp

theorem remove_os_core_refused_witness:
  "swupd_init example_env = SWUPD_OK \<and> 0 \<le> get_current_version example_env
   \<and> remove_bundles_codes 4 example_env 10 [''dev'', ''os-core'', ''editors''] 0 []
        example_installed = Some [SWUPD_OK, SWUPD_REQUIRED_BUNDLE_ERROR, SWUPD_OK]
   \<and> map_option fst
        (remove_bundles 4 example_env [''dev'', ''os-core'', ''editors''] example_installed) =
       Some SWUPD_REQUIRED_BUNDLE_ERROR
   \<and> remove_bundles 4 example_env [''os-core''] example_installed =
       Some (SWUPD_REQUIRED_BUNDLE_ERROR,
         example_installed\<lparr>trace := trace example_installed @
            [Msg Warn (''Bundle '' @ dquote @ ''os-core'' @ dquote
                       @ '' not allowed to be removed'' @ newline),
             Telemetry True (Some ''os-core'') (get_current_version example_env)
               SWUPD_REQUIRED_BUNDLE_ERROR,
             Msg Print (''Failed to remove 1 of 1 bundles'' @ newline)]\<rparr>)"
proof -
  let ?bundles = "[''dev'', ''os-core'', ''editors'']"
  have init: "swupd_init example_env = SWUPD_OK" by (simp add: example_env_def)
  have ver: "0 \<le> get_current_version example_env" by (simp add: example_env_def)
  have cv: "get_current_version example_env = 10" by (simp add: example_env_def)
  have small: "\<forall>b\<in>set ?bundles. example_remove_rank b < 4"
    by (simp add: example_remove_rank_def)
  note inst = remove_os_core_refused [where e = example_env and fuel = 4 and w = example_installed
      and rk = example_remove_rank]
  from inst [where bundles = ?bundles, THEN conjunct2, THEN conjunct2, THEN conjunct1,
      THEN mp, OF init, THEN mp, OF ver, THEN mp, OF example_remove_rank_ok, THEN mp, OF small]
  obtain code w' where
    run: "remove_bundles 4 example_env ?bundles example_installed = Some (code, w')"
    by fastforce
  have mem: "''os-core'' \<in> set ?bundles" by simp
  have codes: "remove_bundles_codes 4 example_env 10 ?bundles 0 [] example_installed
      = Some [SWUPD_OK, SWUPD_REQUIRED_BUNDLE_ERROR, SWUPD_OK]"
    by code_simp
  from inst [where bundles = ?bundles and code = code and w' = w', THEN conjunct2,
      THEN conjunct1, THEN mp, OF init, THEN mp, OF ver, THEN mp, OF mem, THEN mp, OF run]
    codes cv
  have "\<forall>pre post. ?bundles = pre @ ''os-core'' # post \<longrightarrow>
          (\<forall>c\<in>set (drop (Suc (length pre)) [SWUPD_OK, SWUPD_REQUIRED_BUNDLE_ERROR, SWUPD_OK]).
              c = SWUPD_OK \<or> c = SWUPD_REQUIRED_BUNDLE_ERROR) \<longrightarrow>
          code = SWUPD_REQUIRED_BUNDLE_ERROR"
    by auto
  from this [THEN spec, of "[''dev'']", THEN spec, of "[''editors'']"]
  have "code = SWUPD_REQUIRED_BUNDLE_ERROR" by simp
  with run have 1: "map_option fst (remove_bundles 4 example_env ?bundles example_installed) =
       Some SWUPD_REQUIRED_BUNDLE_ERROR" by simp
  note 2 = inst [THEN conjunct2, THEN conjunct2, THEN conjunct2, rule_format, OF init ver]
  from init ver codes 1 2 show ?thesis by simp
qed

theorem remove_os_core_refused_counterexample:
  "map_option fst (remove_bundles 4 example_env [''os-core'', ''nope''] example_stray) =
     Some SWUPD_INVALID_BUNDLE
   \<and> SWUPD_INVALID_BUNDLE \<noteq> SWUPD_REQUIRED_BUNDLE_ERROR"
  by code_simp

end
